theory Spec2Isabelle
  imports Main "HOL-Library.Word"
begin

unbundle bit_operations_syntax

section \<open>Register interface (spi\_driver.h)\<close>

type_synonym u8 = "8 word"
type_synonym u32 = "32 word"

text \<open>Register offsets from the base address.\<close>

definition SPI_CONTROL :: u32 where "SPI_CONTROL = 0x00"
definition SPI_STATUS :: u32 where "SPI_STATUS = 0x04"
definition SPI_TX_DATA :: u32 where "SPI_TX_DATA = 0x08"
definition SPI_RX_DATA :: u32 where "SPI_RX_DATA = 0x0C"
definition SPI_CLK_DIV :: u32 where "SPI_CLK_DIV = 0x10"
definition SPI_TX_FIFO :: u32 where "SPI_TX_FIFO = 0x14"
definition SPI_RX_FIFO :: u32 where "SPI_RX_FIFO = 0x18"
definition SPI_IRQ_EN :: u32 where "SPI_IRQ_EN = 0x1C"
definition SPI_VERSION :: u32 where "SPI_VERSION = 0x20"

text \<open>Control register bits.\<close>

definition CTRL_START :: u32 where "CTRL_START = push_bit 0 1"
definition CTRL_MODE0 :: u32 where "CTRL_MODE0 = push_bit 1 1"
definition CTRL_MODE1 :: u32 where "CTRL_MODE1 = push_bit 1 2"
definition CTRL_CS0 :: u32 where "CTRL_CS0 = push_bit 3 1"
definition CTRL_CS1 :: u32 where "CTRL_CS1 = push_bit 4 1"
definition CTRL_IRQ_EN :: u32 where "CTRL_IRQ_EN = push_bit 5 1"
definition CTRL_DMA_EN :: u32 where "CTRL_DMA_EN = push_bit 6 1"
definition CTRL_LOOPBACK :: u32 where "CTRL_LOOPBACK = push_bit 7 1"
definition CTRL_CS_POL :: u32 where "CTRL_CS_POL = push_bit 8 1"

text \<open>Status register bits.\<close>

definition STAT_BUSY :: u32 where "STAT_BUSY = push_bit 0 1"
definition STAT_DONE :: u32 where "STAT_DONE = push_bit 1 1"
definition STAT_TX_FULL :: u32 where "STAT_TX_FULL = push_bit 2 1"
definition STAT_TX_EMPTY :: u32 where "STAT_TX_EMPTY = push_bit 3 1"
definition STAT_RX_FULL :: u32 where "STAT_RX_FULL = push_bit 4 1"
definition STAT_RX_EMPTY :: u32 where "STAT_RX_EMPTY = push_bit 5 1"
definition STAT_ERROR :: u32 where "STAT_ERROR = push_bit 6 1"
definition STAT_IRQ_PEND :: u32 where "STAT_IRQ_PEND = push_bit 7 1"

text \<open>
  The enums \<open>spi_mode_t\<close> and \<open>spi_cs_t\<close> are C integers: a caller can pass a value
  outside the four enumerators, and the \<open>default\<close> branches of the driver handle it.
  They are modelled as \<open>int\<close> with the enumerators as constants.
\<close>

type_synonym spi_mode_t = int
type_synonym spi_cs_t = int

definition SPI_MODE_0 :: spi_mode_t where "SPI_MODE_0 = 0"
definition SPI_MODE_1 :: spi_mode_t where "SPI_MODE_1 = 1"
definition SPI_MODE_2 :: spi_mode_t where "SPI_MODE_2 = 2"
definition SPI_MODE_3 :: spi_mode_t where "SPI_MODE_3 = 3"

definition SPI_CS_0 :: spi_cs_t where "SPI_CS_0 = 0"
definition SPI_CS_1 :: spi_cs_t where "SPI_CS_1 = 1"
definition SPI_CS_2 :: spi_cs_t where "SPI_CS_2 = 2"
definition SPI_CS_3 :: spi_cs_t where "SPI_CS_3 = 3"

datatype spi_error_t =
    SPI_OK
  | SPI_ERROR_BUSY
  | SPI_ERROR_TIMEOUT
  | SPI_ERROR_FIFO_FULL
  | SPI_ERROR_FIFO_EMPTY
  | SPI_ERROR_INVALID_MODE

section \<open>The memory-mapped device\<close>

text \<open>
  The driver reaches the controller only through the volatile accesses \<open>SPI_REG(offset)\<close>
  (32 bit) and \<open>SPI_REG8(offset)\<close> (8 bit). What the hardware answers to a read, and how
  it reacts to a write, is not part of the driver: it is a parameter, a device with a
  hardware state of type \<open>'h\<close>. A read may change the hardware state (the status
  register changes under the program), so a read returns the new state as well.
\<close>

record 'h device =
  rd32 :: "u32 \<Rightarrow> 'h \<Rightarrow> u32 \<times> 'h"
  wr32 :: "u32 \<Rightarrow> u32 \<Rightarrow> 'h \<Rightarrow> 'h"
  rd8 :: "u32 \<Rightarrow> 'h \<Rightarrow> u8 \<times> 'h"
  wr8 :: "u32 \<Rightarrow> u8 \<Rightarrow> 'h \<Rightarrow> 'h"

text \<open>
  The private variables of spi\_driver.c (\<open>current_mode\<close>, \<open>current_cs\<close>,
  \<open>initialized\<close>) together with the state of the hardware behind the registers.
\<close>

record 'h spi =
  current_mode :: spi_mode_t
  current_cs :: spi_cs_t
  initialized :: bool
  hw :: 'h

definition SPI_REG_get :: "'h device \<Rightarrow> u32 \<Rightarrow> 'h spi \<Rightarrow> u32 \<times> 'h spi" where
  "SPI_REG_get d offset s = (let r = rd32 d offset (hw s) in (fst r, s\<lparr>hw := snd r\<rparr>))"

definition SPI_REG_set :: "'h device \<Rightarrow> u32 \<Rightarrow> u32 \<Rightarrow> 'h spi \<Rightarrow> 'h spi" where
  "SPI_REG_set d offset v s = s\<lparr>hw := wr32 d offset v (hw s)\<rparr>"

definition SPI_REG8_get :: "'h device \<Rightarrow> u32 \<Rightarrow> 'h spi \<Rightarrow> u8 \<times> 'h spi" where
  "SPI_REG8_get d offset s = (let r = rd8 d offset (hw s) in (fst r, s\<lparr>hw := snd r\<rparr>))"

definition SPI_REG8_set :: "'h device \<Rightarrow> u32 \<Rightarrow> u8 \<Rightarrow> 'h spi \<Rightarrow> 'h spi" where
  "SPI_REG8_set d offset v s = s\<lparr>hw := wr8 d offset v (hw s)\<rparr>"

section \<open>Initialization and configuration (spi\_driver.c)\<close>

definition spi_init :: "'h device \<Rightarrow> spi_mode_t \<Rightarrow> u8 \<Rightarrow> 'h spi \<Rightarrow> 'h spi" where
  "spi_init d mode clk_div s =
     (let (control, mode) =
            (if mode = SPI_MODE_0 then (0, mode)
             else if mode = SPI_MODE_1 then (CTRL_MODE0, mode)
             else if mode = SPI_MODE_2 then (CTRL_MODE1, mode)
             else if mode = SPI_MODE_3 then (CTRL_MODE0 OR CTRL_MODE1, mode)
             else (0, SPI_MODE_0));
          control = control OR
            (if current_cs s = SPI_CS_0 then CTRL_CS0
             else if current_cs s = SPI_CS_1 then CTRL_CS1 else 0);
          s = SPI_REG_set d SPI_CONTROL control s;
          s = SPI_REG_set d SPI_CLK_DIV (ucast clk_div) s;
          s = SPI_REG_set d SPI_STATUS 0 s
      in s\<lparr>current_mode := mode, initialized := True\<rparr>)"

definition spi_set_mode :: "'h device \<Rightarrow> spi_mode_t \<Rightarrow> 'h spi \<Rightarrow> spi_error_t \<times> 'h spi" where
  "spi_set_mode d mode s =
     (if \<not> initialized s then (SPI_ERROR_INVALID_MODE, s)
      else
        let (control, s1) = SPI_REG_get d SPI_CONTROL s;
            control = control AND NOT (CTRL_MODE0 OR CTRL_MODE1)
        in if mode = SPI_MODE_0 \<or> mode = SPI_MODE_1 \<or> mode = SPI_MODE_2 \<or> mode = SPI_MODE_3
           then
             let control =
                   (if mode = SPI_MODE_0 then control
                    else if mode = SPI_MODE_1 then control OR CTRL_MODE0
                    else if mode = SPI_MODE_2 then control OR CTRL_MODE1
                    else control OR (CTRL_MODE0 OR CTRL_MODE1));
                 s2 = SPI_REG_set d SPI_CONTROL control s1
             in (SPI_OK, s2\<lparr>current_mode := mode\<rparr>)
           else (SPI_ERROR_INVALID_MODE, s1))"

definition spi_set_clock_divider :: "'h device \<Rightarrow> u8 \<Rightarrow> 'h spi \<Rightarrow> spi_error_t \<times> 'h spi" where
  "spi_set_clock_divider d divider s =
     (if \<not> initialized s then (SPI_ERROR_INVALID_MODE, s)
      else
        let divider = (if divider < 2 then 2 else divider)
        in (SPI_OK, SPI_REG_set d SPI_CLK_DIV (ucast divider) s))"

definition spi_set_cs_polarity :: "'h device \<Rightarrow> bool \<Rightarrow> 'h spi \<Rightarrow> spi_error_t \<times> 'h spi" where
  "spi_set_cs_polarity d active_high s =
     (if \<not> initialized s then (SPI_ERROR_INVALID_MODE, s)
      else
        let (control, s1) = SPI_REG_get d SPI_CONTROL s;
            control = (if active_high then control OR CTRL_CS_POL
                       else control AND NOT CTRL_CS_POL)
        in (SPI_OK, SPI_REG_set d SPI_CONTROL control s1))"

definition spi_enable_loopback :: "'h device \<Rightarrow> bool \<Rightarrow> 'h spi \<Rightarrow> spi_error_t \<times> 'h spi" where
  "spi_enable_loopback d enable s =
     (if \<not> initialized s then (SPI_ERROR_INVALID_MODE, s)
      else
        let (control, s1) = SPI_REG_get d SPI_CONTROL s;
            control = (if enable then control OR CTRL_LOOPBACK
                       else control AND NOT CTRL_LOOPBACK)
        in (SPI_OK, SPI_REG_set d SPI_CONTROL control s1))"

definition spi_select_device :: "'h device \<Rightarrow> spi_cs_t \<Rightarrow> 'h spi \<Rightarrow> spi_error_t \<times> 'h spi" where
  "spi_select_device d cs_line s =
     (if \<not> initialized s then (SPI_ERROR_INVALID_MODE, s)
      else
        let (control, s1) = SPI_REG_get d SPI_CONTROL s;
            control = control AND NOT (CTRL_CS0 OR CTRL_CS1)
        in if cs_line = SPI_CS_0 \<or> cs_line = SPI_CS_1 \<or> cs_line = SPI_CS_2 \<or> cs_line = SPI_CS_3
           then
             let control =
                   (if cs_line = SPI_CS_0 then control OR CTRL_CS0
                    else if cs_line = SPI_CS_1 then control OR CTRL_CS1
                    else if cs_line = SPI_CS_2 then control OR CTRL_CS0
                    else control OR CTRL_CS1);
                 s2 = SPI_REG_set d SPI_CONTROL control s1
             in (SPI_OK, s2\<lparr>current_cs := cs_line\<rparr>)
           else (SPI_ERROR_INVALID_MODE, s1))"

definition spi_deselect_device :: "'h device \<Rightarrow> spi_cs_t \<Rightarrow> 'h spi \<Rightarrow> spi_error_t \<times> 'h spi" where
  "spi_deselect_device d cs_line s =
     (if \<not> initialized s then (SPI_ERROR_INVALID_MODE, s)
      else
        let (control, s1) = SPI_REG_get d SPI_CONTROL s;
            control =
              (if cs_line = SPI_CS_0 then control AND NOT CTRL_CS0
               else if cs_line = SPI_CS_1 then control AND NOT CTRL_CS1
               else control AND NOT (CTRL_CS0 OR CTRL_CS1))
        in (SPI_OK, SPI_REG_set d SPI_CONTROL control s1))"

section \<open>Status queries\<close>

definition spi_is_busy :: "'h device \<Rightarrow> 'h spi \<Rightarrow> bool \<times> 'h spi" where
  "spi_is_busy d s = (let r = SPI_REG_get d SPI_STATUS s in (fst r AND STAT_BUSY \<noteq> 0, snd r))"

definition spi_has_error :: "'h device \<Rightarrow> 'h spi \<Rightarrow> bool \<times> 'h spi" where
  "spi_has_error d s = (let r = SPI_REG_get d SPI_STATUS s in (fst r AND STAT_ERROR \<noteq> 0, snd r))"

section \<open>Transfer engine\<close>

text \<open>
  \<open>while (spi_is_busy()) { }\<close> in \<open>spi_transfer\<close>. The loop ends only when the
  hardware clears the Busy bit, so it is a partial function: \<open>None\<close> is the call that
  polls forever.
\<close>

partial_function (option) spi_transfer_wait :: "'h device \<Rightarrow> 'h spi \<Rightarrow> 'h spi option" where
  "spi_transfer_wait d s =
     (let r = spi_is_busy d s in if fst r then spi_transfer_wait d (snd r) else Some (snd r))"

text \<open>
  \<open>spi_transfer(tx_data, rx_data)\<close>. The pointer \<open>rx_data\<close> is modelled by the flag
  "\<open>rx_data\<close> is not NULL"; the second component of the result is the byte the call
  stored through the pointer, \<open>None\<close> when it stored nothing.
\<close>

definition spi_transfer ::
  "'h device \<Rightarrow> u8 \<Rightarrow> bool \<Rightarrow> 'h spi \<Rightarrow> (spi_error_t \<times> u8 option \<times> 'h spi) option" where
  "spi_transfer d tx_data rx_data s =
     (if \<not> initialized s then Some (SPI_ERROR_INVALID_MODE, None, s)
      else
        let (busy, s1) = spi_is_busy d s
        in if busy then Some (SPI_ERROR_BUSY, None, s1)
           else
             let s2 = SPI_REG8_set d SPI_TX_DATA tx_data s1;
                 (control, s3) = SPI_REG_get d SPI_CONTROL s2;
                 control = control OR CTRL_START;
                 s4 = SPI_REG_set d SPI_CONTROL control s3
             in if rx_data
                then (case spi_transfer_wait d s4 of
                        None \<Rightarrow> None
                      | Some s5 \<Rightarrow>
                          let (err, s6) = spi_has_error d s5
                          in if err then Some (SPI_ERROR_TIMEOUT, None, s6)
                             else
                               let (v, s7) = SPI_REG8_get d SPI_RX_DATA s6
                               in Some (SPI_OK, Some v, s7))
                else Some (SPI_OK, None, s4))"

text \<open>
  The polling loop of \<open>spi_transfer_blocking\<close>: its body tests \<open>timeout_ms > 0\<close> and
  does nothing in either case.
\<close>

partial_function (option) spi_transfer_blocking_wait ::
  "'h device \<Rightarrow> u32 \<Rightarrow> 'h spi \<Rightarrow> 'h spi option" where
  "spi_transfer_blocking_wait d timeout_ms s =
     (let r = spi_is_busy d s
      in if fst r
         then (if timeout_ms > 0 then spi_transfer_blocking_wait d timeout_ms (snd r)
               else spi_transfer_blocking_wait d timeout_ms (snd r))
         else Some (snd r))"

definition spi_transfer_blocking ::
  "'h device \<Rightarrow> u8 \<Rightarrow> bool \<Rightarrow> u32 \<Rightarrow> 'h spi \<Rightarrow> (spi_error_t \<times> u8 option \<times> 'h spi) option" where
  "spi_transfer_blocking d tx_data rx_data timeout_ms s =
     (if \<not> initialized s then Some (SPI_ERROR_INVALID_MODE, None, s)
      else
        case spi_transfer d tx_data False s of
          None \<Rightarrow> None
        | Some (error, _, s1) \<Rightarrow>
            if error \<noteq> SPI_OK then Some (error, None, s1)
            else
              (case spi_transfer_blocking_wait d timeout_ms s1 of
                 None \<Rightarrow> None
               | Some s2 \<Rightarrow>
                   let (err, s3) = spi_has_error d s2
                   in if err then Some (SPI_ERROR_TIMEOUT, None, s3)
                      else if rx_data
                      then (let (v, s4) = SPI_REG8_get d SPI_RX_DATA s3
                            in Some (SPI_OK, Some v, s4))
                      else Some (SPI_OK, None, s3)))"

subsection \<open>Bulk helpers\<close>

text \<open>
  A pointer to a byte array is \<open>None\<close> (NULL) or \<open>Some\<close> of the array's contents; an
  array the call writes to is returned with its new contents. The index \<open>i\<close> and
  \<open>length\<close> are \<open>uint32_t\<close>; \<open>i\<close> stays below \<open>length\<close>, so \<open>i++\<close> never wraps and
  natural numbers model both. The arrays are assumed to hold at least \<open>length\<close> bytes,
  as the C caller must guarantee.
\<close>

function spi_write_bytes_loop ::
  "'h device \<Rightarrow> u8 list \<Rightarrow> nat \<Rightarrow> nat \<Rightarrow> 'h spi \<Rightarrow> (spi_error_t \<times> 'h spi) option" where
  "spi_write_bytes_loop d data len i s =
     (if i < len
      then (case spi_transfer d (data ! i) False s of
              None \<Rightarrow> None
            | Some (error, _, s') \<Rightarrow>
                if error \<noteq> SPI_OK then Some (error, s')
                else spi_write_bytes_loop d data len (i + 1) s')
      else Some (SPI_OK, s))"
  by pat_completeness auto
termination
  by (relation "measure (\<lambda>(d, data, len, i, s). len - i)") auto

definition spi_write_bytes ::
  "'h device \<Rightarrow> u8 list option \<Rightarrow> nat \<Rightarrow> 'h spi \<Rightarrow> (spi_error_t \<times> 'h spi) option" where
  "spi_write_bytes d data len s =
     (if \<not> initialized s then Some (SPI_ERROR_INVALID_MODE, s)
      else case data of
             None \<Rightarrow> Some (SPI_OK, s)
           | Some xs \<Rightarrow> spi_write_bytes_loop d xs len 0 s)"

function spi_read_bytes_loop ::
  "'h device \<Rightarrow> u8 list \<Rightarrow> nat \<Rightarrow> nat \<Rightarrow> 'h spi \<Rightarrow> (spi_error_t \<times> u8 list \<times> 'h spi) option" where
  "spi_read_bytes_loop d buffer len i s =
     (if i < len
      then (case spi_transfer d 0xFF True s of
              None \<Rightarrow> None
            | Some (error, r, s') \<Rightarrow>
                if error \<noteq> SPI_OK then Some (error, buffer, s')
                else spi_read_bytes_loop d
                       (case r of Some v \<Rightarrow> buffer[i := v] | None \<Rightarrow> buffer) len (i + 1) s')
      else Some (SPI_OK, buffer, s))"
  by pat_completeness auto
termination
  by (relation "measure (\<lambda>(d, buffer, len, i, s). len - i)") auto

definition spi_read_bytes ::
  "'h device \<Rightarrow> u8 list option \<Rightarrow> nat \<Rightarrow> 'h spi
     \<Rightarrow> (spi_error_t \<times> u8 list option \<times> 'h spi) option" where
  "spi_read_bytes d buffer len s =
     (if \<not> initialized s then Some (SPI_ERROR_INVALID_MODE, buffer, s)
      else case buffer of
             None \<Rightarrow> Some (SPI_OK, None, s)
           | Some buf \<Rightarrow>
               (case spi_read_bytes_loop d buf len 0 s of
                  None \<Rightarrow> None
                | Some (error, buf', s') \<Rightarrow> Some (error, Some buf', s')))"

text \<open>
  In \<open>spi_transfer_bytes\<close> the received byte goes through the local \<open>rx_byte\<close>. A
  transfer that returns \<open>SPI_OK\<close> for a non-NULL pointer has always stored a byte
  (\<open>spi_transfer_ok_stores\<close> below), so the branch \<open>None\<close> of the copy into
  \<open>rx_data[i]\<close> is never taken.
\<close>

function spi_transfer_bytes_loop ::
  "'h device \<Rightarrow> u8 list option \<Rightarrow> u8 list option \<Rightarrow> nat \<Rightarrow> nat \<Rightarrow> 'h spi
     \<Rightarrow> (spi_error_t \<times> u8 list option \<times> 'h spi) option" where
  "spi_transfer_bytes_loop d tx_data rx_data len i s =
     (if i < len
      then
        let tx_byte = (case tx_data of Some xs \<Rightarrow> xs ! i | None \<Rightarrow> 0xFF)
        in (case spi_transfer d tx_byte True s of
              None \<Rightarrow> None
            | Some (error, rx_byte, s') \<Rightarrow>
                if error \<noteq> SPI_OK then Some (error, rx_data, s')
                else spi_transfer_bytes_loop d tx_data
                       (case rx_data of
                          None \<Rightarrow> None
                        | Some buf \<Rightarrow>
                            (case rx_byte of Some v \<Rightarrow> Some (buf[i := v]) | None \<Rightarrow> Some buf))
                       len (i + 1) s')
      else Some (SPI_OK, rx_data, s))"
  by pat_completeness auto
termination
  by (relation "measure (\<lambda>(d, tx_data, rx_data, len, i, s). len - i)") auto

definition spi_transfer_bytes ::
  "'h device \<Rightarrow> u8 list option \<Rightarrow> u8 list option \<Rightarrow> nat \<Rightarrow> 'h spi
     \<Rightarrow> (spi_error_t \<times> u8 list option \<times> 'h spi) option" where
  "spi_transfer_bytes d tx_data rx_data len s =
     (if \<not> initialized s then Some (SPI_ERROR_INVALID_MODE, rx_data, s)
      else if tx_data = None \<and> rx_data = None then Some (SPI_OK, rx_data, s)
      else spi_transfer_bytes_loop d tx_data rx_data len 0 s)"

text \<open>
  The loop equations are unfolded by hand in the proofs, one iteration at a time.
\<close>

declare spi_write_bytes_loop.simps [simp del]
declare spi_read_bytes_loop.simps [simp del]
declare spi_transfer_bytes_loop.simps [simp del]

section \<open>Flash identification\<close>


section \<open>A register bank to run the driver against\<close>

text \<open>
  Modelled from the spec: the controller hardware behind the registers, which the
  repository does not contain. The Register Block holds the nine registers; a register
  holds the value last written to it. The hardware changes Status under the program: the
  values that successive reads of Status return are given by \<open>status_script\<close>, and once
  the script is used up a read returns the register as it stands. In loopback mode
  (Control bit 7) the transmit output is routed to the receive input: a read of RxData
  returns the byte in TxData.
\<close>

record bench =
  reg_control :: u32
  reg_status :: u32
  reg_tx_data :: u8
  reg_rx_data :: u8
  reg_clk_div :: u32
  reg_tx_fifo :: u8
  reg_rx_fifo :: u8
  reg_irq_en :: u32
  reg_version :: u32
  status_script :: "u32 list"

definition bench_rd32 :: "u32 \<Rightarrow> bench \<Rightarrow> u32 \<times> bench" where
  "bench_rd32 offset h =
     (if offset = SPI_STATUS
      then (case status_script h of
              [] \<Rightarrow> (reg_status h, h)
            | v # vs \<Rightarrow> (v, h\<lparr>reg_status := v, status_script := vs\<rparr>))
      else if offset = SPI_CONTROL then (reg_control h, h)
      else if offset = SPI_CLK_DIV then (reg_clk_div h, h)
      else if offset = SPI_IRQ_EN then (reg_irq_en h, h)
      else if offset = SPI_VERSION then (reg_version h, h)
      else (0, h))"

definition bench_wr32 :: "u32 \<Rightarrow> u32 \<Rightarrow> bench \<Rightarrow> bench" where
  "bench_wr32 offset v h =
     (if offset = SPI_CONTROL then h\<lparr>reg_control := v\<rparr>
      else if offset = SPI_STATUS then h\<lparr>reg_status := v\<rparr>
      else if offset = SPI_CLK_DIV then h\<lparr>reg_clk_div := v\<rparr>
      else if offset = SPI_IRQ_EN then h\<lparr>reg_irq_en := v\<rparr>
      else h)"

definition bench_rd8 :: "u32 \<Rightarrow> bench \<Rightarrow> u8 \<times> bench" where
  "bench_rd8 offset h =
     (if offset = SPI_RX_DATA
      then (if reg_control h AND CTRL_LOOPBACK \<noteq> 0 then reg_tx_data h else reg_rx_data h, h)
      else if offset = SPI_RX_FIFO then (reg_rx_fifo h, h)
      else (0, h))"

definition bench_wr8 :: "u32 \<Rightarrow> u8 \<Rightarrow> bench \<Rightarrow> bench" where
  "bench_wr8 offset v h =
     (if offset = SPI_TX_DATA then h\<lparr>reg_tx_data := v\<rparr>
      else if offset = SPI_TX_FIFO then h\<lparr>reg_tx_fifo := v\<rparr>
      else h)"

definition bench_dev :: "bench device" where
  "bench_dev = \<lparr>rd32 = bench_rd32, wr32 = bench_wr32, rd8 = bench_rd8, wr8 = bench_wr8\<rparr>"

text \<open>The bank after reset: every register zero, no scripted status.\<close>

definition bench0 :: bench where
  "bench0 = \<lparr>reg_control = 0, reg_status = 0, reg_tx_data = 0, reg_rx_data = 0,
             reg_clk_div = 0, reg_tx_fifo = 0, reg_rx_fifo = 0, reg_irq_en = 0,
             reg_version = 0x00010000, status_script = []\<rparr>"

text \<open>The driver's variables as the C file initializes them, on a given hardware state.\<close>

definition spi0 :: "'h \<Rightarrow> 'h spi" where
  "spi0 h = \<lparr>current_mode = SPI_MODE_0, current_cs = SPI_CS_0, initialized = False, hw = h\<rparr>"

subsection \<open>Bench states used in the examples\<close>

text \<open>
  A controller on the bench after \<open>spi_init(SPI_MODE_0, 4)\<close>; the same controller with
  the Busy bit standing in Status; with a byte waiting in RxData and a script of Status
  values; and after \<open>spi_enable_loopback(true)\<close>: idle, with the Busy bit standing, and with
  a script of Status values.
\<close>

definition ready :: "bench spi" where
  "ready = spi_init bench_dev SPI_MODE_0 4 (spi0 bench0)"

definition ready_busy :: "bench spi" where
  "ready_busy = ready\<lparr>hw := (hw ready)\<lparr>reg_status := STAT_BUSY\<rparr>\<rparr>"

definition ready_hw :: "u8 \<Rightarrow> u32 list \<Rightarrow> bench spi" where
  "ready_hw rx vs = ready\<lparr>hw := (hw ready)\<lparr>reg_rx_data := rx, status_script := vs\<rparr>\<rparr>"

definition loopback_on :: "bench spi" where
  "loopback_on = snd (spi_enable_loopback bench_dev True ready)"

definition loopback_busy :: "bench spi" where
  "loopback_busy = loopback_on\<lparr>hw := (hw loopback_on)\<lparr>reg_status := STAT_BUSY\<rparr>\<rparr>"

definition loopback_hw :: "u32 list \<Rightarrow> bench spi" where
  "loopback_hw vs = loopback_on\<lparr>hw := (hw loopback_on)\<lparr>status_script := vs\<rparr>\<rparr>"

subsection \<open>What the bench will answer to Status reads\<close>

text \<open>
  The Status values still to come are the register together with the script.
  \<open>status_read\<close> is that stream after one read (its first component is the value just
  read); \<open>status_poll\<close> is the stream after a busy-wait, that is after reading until a
  value without the Busy bit comes, and \<open>None\<close> when no such value ever comes.
\<close>

definition status_stream :: "bench \<Rightarrow> u32 \<times> u32 list" where
  "status_stream h = (reg_status h, status_script h)"

fun status_read :: "u32 \<times> u32 list \<Rightarrow> u32 \<times> u32 list" where
  "status_read (reg, []) = (reg, [])"
| "status_read (reg, v # vs) = (v, vs)"

fun status_poll :: "u32 \<times> u32 list \<Rightarrow> (u32 \<times> u32 list) option" where
  "status_poll (reg, []) = (if reg AND STAT_BUSY = 0 then Some (reg, []) else None)"
| "status_poll (reg, v # vs) = (if v AND STAT_BUSY = 0 then Some (v, vs) else status_poll (v, vs))"

text \<open>
  \<open>paced n\<close>: the hardware carries \<open>n\<close> waited transfers through. For each of them,
  Status does not show Busy when the transfer is requested, the Busy bit clears after
  some number of polls, and the Status read that follows shows no Error.
  \<open>hung\<close>: every Status read, now and later, shows Busy.
\<close>

fun paced :: "nat \<Rightarrow> u32 \<times> u32 list \<Rightarrow> bool" where
  "paced 0 st = True"
| "paced (Suc n) st =
     (let st0 = status_read st
      in fst st0 AND STAT_BUSY = 0 \<and>
         (case status_poll st0 of
            None \<Rightarrow> False
          | Some st1 \<Rightarrow>
              (let st2 = status_read st1 in fst st2 AND STAT_ERROR = 0 \<and> paced n st2)))"

definition hung :: "bench \<Rightarrow> bool" where
  "hung h = list_all (\<lambda>v. v AND STAT_BUSY \<noteq> 0) (reg_status h # status_script h)"

section \<open>Mode encoding\<close>

text \<open>
  Clock polarity and clock phase of a mode, as the comments on \<open>spi_mode_t\<close> give them:
  mode 0 is CPOL=0, CPHA=0; mode 1 is CPOL=0, CPHA=1; mode 2 is CPOL=1, CPHA=0; mode 3 is
  CPOL=1, CPHA=1.
\<close>

definition mode_cpol :: "spi_mode_t \<Rightarrow> bool" where
  "mode_cpol mode = (mode = SPI_MODE_2 \<or> mode = SPI_MODE_3)"

definition mode_cpha :: "spi_mode_t \<Rightarrow> bool" where
  "mode_cpha mode = (mode = SPI_MODE_1 \<or> mode = SPI_MODE_3)"

section \<open>Properties\<close>

lemmas offs = SPI_CONTROL_def SPI_STATUS_def SPI_TX_DATA_def SPI_RX_DATA_def SPI_CLK_DIV_def
  SPI_TX_FIFO_def SPI_RX_FIFO_def SPI_IRQ_EN_def SPI_VERSION_def
lemmas bits = CTRL_START_def CTRL_MODE0_def CTRL_MODE1_def CTRL_CS0_def CTRL_CS1_def
  CTRL_LOOPBACK_def CTRL_CS_POL_def STAT_BUSY_def STAT_ERROR_def
lemmas enums = SPI_MODE_0_def SPI_MODE_1_def SPI_MODE_2_def SPI_MODE_3_def
  SPI_CS_0_def SPI_CS_1_def SPI_CS_2_def SPI_CS_3_def
lemmas bus = SPI_REG_get_def SPI_REG_set_def SPI_REG8_get_def SPI_REG8_set_def
lemmas benchs = bench_dev_def bench_rd32_def bench_wr32_def bench_rd8_def bench_wr8_def

lemma mask_set: "x AND m = x \<Longrightarrow> (c AND NOT m OR x) AND m = (x::'a::len word)"
  by (simp add: bit.conj_disj_distrib2 and.assoc)

lemma mask_keep: "x AND m = x \<Longrightarrow> (c AND NOT m OR x) AND NOT m = (c::'a::len word) AND NOT m"
proof -
  assume a: "x AND m = x"
  have "x AND NOT m = (x AND m) AND NOT m" using a by simp
  also have "\<dots> = 0" by (simp add: and.assoc)
  finally show ?thesis by (simp add: bit.conj_disj_distrib2 and.assoc)
qed

lemma mask_clear: "(c AND NOT m) AND m = (0::'a::len word)"
  by (simp add: and.assoc)

lemma ready_eq:
  "ready = \<lparr>current_mode = 0, current_cs = 0, initialized = True,
     hw = bench0\<lparr>reg_control := 8, reg_clk_div := 4\<rparr>\<rparr>"
  by (simp add: ready_def spi_init_def spi0_def bench0_def enums bits offs bus benchs)

lemma bench_control_get [simp]:
  "SPI_REG_get bench_dev SPI_CONTROL b = (reg_control (hw b), b)"
  by (simp add: bus benchs offs)

lemma bench_control_set [simp]:
  "SPI_REG_set bench_dev SPI_CONTROL v b = b\<lparr>hw := (hw b)\<lparr>reg_control := v\<rparr>\<rparr>"
  by (simp add: bus benchs offs)

lemma bench_clk_div_set [simp]:
  "SPI_REG_set bench_dev SPI_CLK_DIV v b = b\<lparr>hw := (hw b)\<lparr>reg_clk_div := v\<rparr>\<rparr>"
  by (simp add: bus benchs offs)

lemma bench_status_set [simp]:
  "SPI_REG_set bench_dev SPI_STATUS v b = b\<lparr>hw := (hw b)\<lparr>reg_status := v\<rparr>\<rparr>"
  by (simp add: bus benchs offs)

text \<open>
  Claim C8. On an initialized controller \<open>spi_set_clock_divider\<close> returns \<open>SPI_OK\<close> and
  writes 2 to the ClockDivider register when the divider is below 2, and the divider
  itself otherwise: this is the one access the call makes, on every device, and on the
  register bank the register then holds that value.
\<close>
theorem set_clock_divider_clamps:
  assumes "initialized s" and "initialized b"
  shows "spi_set_clock_divider d divider s =
           (SPI_OK, SPI_REG_set d SPI_CLK_DIV (if divider < 2 then 2 else ucast divider) s)
       \<and> fst (spi_set_clock_divider bench_dev divider b) = SPI_OK
       \<and> reg_clk_div (hw (snd (spi_set_clock_divider bench_dev divider b))) =
           (if divider < 2 then 2 else ucast divider)"
  using assms by (simp add: spi_set_clock_divider_def)

theorem set_clock_divider_clamps_witness:
  "initialized ready
   \<and> spi_set_clock_divider bench_dev 1 ready = (SPI_OK, SPI_REG_set bench_dev SPI_CLK_DIV 2 ready)
   \<and> reg_clk_div (hw (snd (spi_set_clock_divider bench_dev 1 ready))) = 2
   \<and> reg_clk_div (hw (snd (spi_set_clock_divider bench_dev 200 ready))) = 200"
proof -
  have h: "initialized ready" by (simp add: ready_eq)
  show ?thesis
    using h set_clock_divider_clamps [OF h h, of bench_dev 1]
      set_clock_divider_clamps [OF h h, of bench_dev 200]
    by simp
qed

lemma set_mode_written:
  assumes "initialized s"
    and "mode = SPI_MODE_0 \<or> mode = SPI_MODE_1 \<or> mode = SPI_MODE_2 \<or> mode = SPI_MODE_3"
  shows "\<exists>v. spi_set_mode d mode s =
              (SPI_OK, (SPI_REG_set d SPI_CONTROL v (snd (SPI_REG_get d SPI_CONTROL s)))
                         \<lparr>current_mode := mode\<rparr>)
           \<and> bit v 2 = mode_cpol mode \<and> bit v 1 = mode_cpha mode
           \<and> v AND NOT (CTRL_MODE0 OR CTRL_MODE1) =
               fst (SPI_REG_get d SPI_CONTROL s) AND NOT (CTRL_MODE0 OR CTRL_MODE1)"
proof -
  define c where "c = fst (SPI_REG_get d SPI_CONTROL s) AND NOT (CTRL_MODE0 OR CTRL_MODE1)"
  define x where "x = (if mode = SPI_MODE_0 then 0 else if mode = SPI_MODE_1 then CTRL_MODE0
     else if mode = SPI_MODE_2 then CTRL_MODE1 else CTRL_MODE0 OR CTRL_MODE1)"
  have r: "spi_set_mode d mode s =
      (SPI_OK, (SPI_REG_set d SPI_CONTROL (c OR x) (snd (SPI_REG_get d SPI_CONTROL s)))
                         \<lparr>current_mode := mode\<rparr>)"
    using assms by (auto simp: spi_set_mode_def split_def Let_def c_def x_def enums)
  have xm: "x AND (CTRL_MODE0 OR CTRL_MODE1) = x"
    by (simp add: x_def CTRL_MODE0_def CTRL_MODE1_def)
  have keep: "(c OR x) AND NOT (CTRL_MODE0 OR CTRL_MODE1) =
      fst (SPI_REG_get d SPI_CONTROL s) AND NOT (CTRL_MODE0 OR CTRL_MODE1)"
    unfolding c_def by (rule mask_keep [OF xm])
  have fld: "(c OR x) AND (CTRL_MODE0 OR CTRL_MODE1) = x"
    unfolding c_def by (rule mask_set [OF xm])
  have "bit ((c OR x) AND (CTRL_MODE0 OR CTRL_MODE1)) 2 = bit (c OR x) 2"
       "bit ((c OR x) AND (CTRL_MODE0 OR CTRL_MODE1)) 1 = bit (c OR x) 1"
    by (simp_all add: bit_simps CTRL_MODE0_def CTRL_MODE1_def)
  then have b: "bit (c OR x) 2 = bit x 2" "bit (c OR x) 1 = bit x 1"
    by (simp_all add: fld)
  have "bit x 2 = mode_cpol mode" "bit x 1 = mode_cpha mode"
    using assms(2) by (auto simp: x_def mode_cpol_def mode_cpha_def enums CTRL_MODE0_def CTRL_MODE1_def bit_simps)
  with r keep b show ?thesis by auto
qed

text \<open>
  Claim C6. For each of the four modes, \<open>spi_set_mode\<close> on an initialized controller
  returns \<open>SPI_OK\<close> and writes to Control a value whose bit 2 is the mode's clock polarity
  and whose bit 1 is its clock phase, the other bits being those read from Control. On the
  register bank Control then holds these bits, and the map from the four modes to the pair
  of bits is a bijection onto the four bit patterns.
\<close>
theorem set_mode_bits:
  assumes "initialized s" and "initialized b"
    and "mode = SPI_MODE_0 \<or> mode = SPI_MODE_1 \<or> mode = SPI_MODE_2 \<or> mode = SPI_MODE_3"
  shows "(\<exists>v. spi_set_mode d mode s =
              (SPI_OK, (SPI_REG_set d SPI_CONTROL v (snd (SPI_REG_get d SPI_CONTROL s)))
                         \<lparr>current_mode := mode\<rparr>)
           \<and> bit v 2 = mode_cpol mode \<and> bit v 1 = mode_cpha mode
           \<and> v AND NOT (CTRL_MODE0 OR CTRL_MODE1) =
               fst (SPI_REG_get d SPI_CONTROL s) AND NOT (CTRL_MODE0 OR CTRL_MODE1))
       \<and> fst (spi_set_mode bench_dev mode b) = SPI_OK
       \<and> bit (reg_control (hw (snd (spi_set_mode bench_dev mode b)))) 2 = mode_cpol mode
       \<and> bit (reg_control (hw (snd (spi_set_mode bench_dev mode b)))) 1 = mode_cpha mode
       \<and> bij_betw (\<lambda>m. (bit (reg_control (hw (snd (spi_set_mode bench_dev m b)))) 2,
                         bit (reg_control (hw (snd (spi_set_mode bench_dev m b)))) 1))
            {SPI_MODE_0, SPI_MODE_1, SPI_MODE_2, SPI_MODE_3} UNIV"
proof -
  have bench: "fst (spi_set_mode bench_dev m b) = SPI_OK
      \<and> bit (reg_control (hw (snd (spi_set_mode bench_dev m b)))) 2 = mode_cpol m
      \<and> bit (reg_control (hw (snd (spi_set_mode bench_dev m b)))) 1 = mode_cpha m"
    if "m = SPI_MODE_0 \<or> m = SPI_MODE_1 \<or> m = SPI_MODE_2 \<or> m = SPI_MODE_3" for m
    using set_mode_written [OF assms(2) that, of bench_dev] by auto
  let ?f = "\<lambda>m. (bit (reg_control (hw (snd (spi_set_mode bench_dev m b)))) 2,
                         bit (reg_control (hw (snd (spi_set_mode bench_dev m b)))) 1)"
  let ?M = "{SPI_MODE_0, SPI_MODE_1, SPI_MODE_2, SPI_MODE_3}"
  have f: "?f m = (mode_cpol m, mode_cpha m)" if "m \<in> ?M" for m
  proof -
    from that have "m = SPI_MODE_0 \<or> m = SPI_MODE_1 \<or> m = SPI_MODE_2 \<or> m = SPI_MODE_3"
      by blast
    from bench [OF this] show ?thesis by (simp only: prod.inject)
  qed
  have "inj_on ?f ?M"
  proof (rule inj_onI)
    fix x y assume x: "x \<in> ?M" and y: "y \<in> ?M" and e: "?f x = ?f y"
    have "(mode_cpol x, mode_cpha x) = (mode_cpol y, mode_cpha y)"
      using e unfolding f [OF x] f [OF y] .
    with x y show "x = y"
      by (auto simp: mode_cpol_def mode_cpha_def enums)
  qed
  moreover have "?f ` ?M = UNIV"
  proof -
    have "?f ` ?M = (\<lambda>m. (mode_cpol m, mode_cpha m)) ` ?M"
      by (rule image_cong [OF refl]) (rule f)
    also have "\<dots> = {(False, False), (False, True), (True, False), (True, True)}"
      by (auto simp: mode_cpol_def mode_cpha_def enums)
    also have "\<dots> = UNIV" by auto
    finally show ?thesis .
  qed
  ultimately have "bij_betw ?f ?M UNIV" by (simp add: bij_betw_def)
  with set_mode_written [OF assms(1,3), of d] bench [OF assms(3)] show ?thesis by blast
qed

theorem set_mode_bits_witness:
  "initialized ready
   \<and> fst (spi_set_mode bench_dev SPI_MODE_2 ready) = SPI_OK
   \<and> bit (reg_control (hw (snd (spi_set_mode bench_dev SPI_MODE_2 ready)))) 2
   \<and> \<not> bit (reg_control (hw (snd (spi_set_mode bench_dev SPI_MODE_2 ready)))) 1"
proof -
  have h: "initialized ready" by (simp add: ready_eq)
  have m: "SPI_MODE_2 = SPI_MODE_0 \<or> SPI_MODE_2 = SPI_MODE_1 \<or> SPI_MODE_2 = SPI_MODE_2
             \<or> SPI_MODE_2 = SPI_MODE_3" by simp
  show ?thesis
    using h set_mode_bits [OF h h m, of bench_dev]
    by (simp add: mode_cpol_def mode_cpha_def enums)
qed

text \<open>
  Claim C3. While \<open>initialized\<close> is false, each of the six configuration operations and
  the five transfer operations returns \<open>SPI_ERROR_INVALID_MODE\<close> and returns the state it
  was given: the call makes no register access, on any device, so every register is as
  it was (and a receive buffer keeps its contents).
\<close>
theorem uninitialized_fails_fast:
  assumes "\<not> initialized s"
  shows "spi_set_mode d mode s = (SPI_ERROR_INVALID_MODE, s)
       \<and> spi_set_clock_divider d divider s = (SPI_ERROR_INVALID_MODE, s)
       \<and> spi_set_cs_polarity d active_high s = (SPI_ERROR_INVALID_MODE, s)
       \<and> spi_enable_loopback d enable s = (SPI_ERROR_INVALID_MODE, s)
       \<and> spi_select_device d cs_line s = (SPI_ERROR_INVALID_MODE, s)
       \<and> spi_deselect_device d cs_line s = (SPI_ERROR_INVALID_MODE, s)
       \<and> spi_transfer d tx_byte rx_ptr s = Some (SPI_ERROR_INVALID_MODE, None, s)
       \<and> spi_transfer_blocking d tx_byte rx_ptr timeout_ms s = Some (SPI_ERROR_INVALID_MODE, None, s)
       \<and> spi_write_bytes d data len s = Some (SPI_ERROR_INVALID_MODE, s)
       \<and> spi_read_bytes d buffer len s = Some (SPI_ERROR_INVALID_MODE, buffer, s)
       \<and> spi_transfer_bytes d tx_data rx_data len s = Some (SPI_ERROR_INVALID_MODE, rx_data, s)"
  using assms
  by (simp add: spi_set_mode_def spi_set_clock_divider_def spi_set_cs_polarity_def
      spi_enable_loopback_def spi_select_device_def spi_deselect_device_def spi_transfer_def
      spi_transfer_blocking_def spi_write_bytes_def spi_read_bytes_def spi_transfer_bytes_def)

theorem uninitialized_fails_fast_witness:
  "\<not> initialized (spi0 bench0)
   \<and> spi_set_mode bench_dev SPI_MODE_1 (spi0 bench0) = (SPI_ERROR_INVALID_MODE, spi0 bench0)
   \<and> spi_select_device bench_dev SPI_CS_1 (spi0 bench0) = (SPI_ERROR_INVALID_MODE, spi0 bench0)
   \<and> spi_transfer bench_dev 0xAA True (spi0 bench0) = Some (SPI_ERROR_INVALID_MODE, None, spi0 bench0)
   \<and> spi_transfer_bytes bench_dev (Some [1, 2]) (Some [0, 0]) 2 (spi0 bench0) =
        Some (SPI_ERROR_INVALID_MODE, Some [0, 0], spi0 bench0)"
proof -
  have h: "\<not> initialized (spi0 bench0)" by (simp add: spi0_def)
  show ?thesis
    using h uninitialized_fails_fast [OF h, of bench_dev SPI_MODE_1 0 False False SPI_CS_1
        "0xAA" True 0 None 2 None "Some [1, 2]" "Some [0, 0]"]
    by simp
qed

lemma select_device_written:
  assumes "initialized s"
    and "cs_line = SPI_CS_0 \<or> cs_line = SPI_CS_1 \<or> cs_line = SPI_CS_2 \<or> cs_line = SPI_CS_3"
  shows "spi_select_device d cs_line s =
           (SPI_OK, (SPI_REG_set d SPI_CONTROL
              (fst (SPI_REG_get d SPI_CONTROL s) AND NOT (CTRL_CS0 OR CTRL_CS1) OR
                 (if cs_line = SPI_CS_0 \<or> cs_line = SPI_CS_2 then CTRL_CS0 else CTRL_CS1))
              (snd (SPI_REG_get d SPI_CONTROL s)))\<lparr>current_cs := cs_line\<rparr>)"
  using assms by (auto simp: spi_select_device_def split_def Let_def enums)

lemma cs_field:
  "CTRL_CS0 AND (CTRL_CS0 OR CTRL_CS1) = CTRL_CS0"
  "CTRL_CS1 AND (CTRL_CS0 OR CTRL_CS1) = CTRL_CS1"
  "(CTRL_CS0 OR CTRL_CS1) AND CTRL_CS0 = CTRL_CS0"
  "(CTRL_CS0 OR CTRL_CS1) AND CTRL_CS1 = CTRL_CS1"
  "CTRL_CS0 AND CTRL_CS1 = 0" "CTRL_CS1 AND CTRL_CS0 = 0"
  "CTRL_CS0 \<noteq> 0" "CTRL_CS1 \<noteq> 0"
  by (simp_all add: CTRL_CS0_def CTRL_CS1_def)

lemma cs_set0: "(c AND NOT (CTRL_CS0 OR CTRL_CS1) OR CTRL_CS0) AND CTRL_CS0 = CTRL_CS0"
               "(c AND NOT (CTRL_CS0 OR CTRL_CS1) OR CTRL_CS0) AND CTRL_CS1 = 0"
proof -
  let ?v = "c AND NOT (CTRL_CS0 OR CTRL_CS1) OR CTRL_CS0"
  have f: "?v AND (CTRL_CS0 OR CTRL_CS1) = CTRL_CS0"
    by (rule mask_set) (rule cs_field)
  have "?v AND CTRL_CS0 = (?v AND (CTRL_CS0 OR CTRL_CS1)) AND CTRL_CS0"
    by (simp only: and.assoc cs_field)
  then show "?v AND CTRL_CS0 = CTRL_CS0" by (simp only: f and.idem)
  have "?v AND CTRL_CS1 = (?v AND (CTRL_CS0 OR CTRL_CS1)) AND CTRL_CS1"
    by (simp only: and.assoc cs_field)
  then show "?v AND CTRL_CS1 = 0" by (simp only: f cs_field)
qed

lemma cs_set1: "(c AND NOT (CTRL_CS0 OR CTRL_CS1) OR CTRL_CS1) AND CTRL_CS1 = CTRL_CS1"
               "(c AND NOT (CTRL_CS0 OR CTRL_CS1) OR CTRL_CS1) AND CTRL_CS0 = 0"
proof -
  let ?v = "c AND NOT (CTRL_CS0 OR CTRL_CS1) OR CTRL_CS1"
  have f: "?v AND (CTRL_CS0 OR CTRL_CS1) = CTRL_CS1"
    by (rule mask_set) (rule cs_field)
  have "?v AND CTRL_CS1 = (?v AND (CTRL_CS0 OR CTRL_CS1)) AND CTRL_CS1"
    by (simp only: and.assoc cs_field)
  then show "?v AND CTRL_CS1 = CTRL_CS1" by (simp only: f and.idem)
  have "?v AND CTRL_CS0 = (?v AND (CTRL_CS0 OR CTRL_CS1)) AND CTRL_CS0"
    by (simp only: and.assoc cs_field)
  then show "?v AND CTRL_CS0 = 0" by (simp only: f cs_field)
qed

lemma cs_clear: "(c AND NOT (CTRL_CS0 OR CTRL_CS1)) AND CTRL_CS0 = 0"
                "(c AND NOT (CTRL_CS0 OR CTRL_CS1)) AND CTRL_CS1 = 0"
proof -
  let ?v = "c AND NOT (CTRL_CS0 OR CTRL_CS1)"
  have f: "?v AND (CTRL_CS0 OR CTRL_CS1) = 0" by (rule mask_clear)
  have "?v AND CTRL_CS0 = (?v AND (CTRL_CS0 OR CTRL_CS1)) AND CTRL_CS0"
    by (simp only: and.assoc cs_field)
  then show "?v AND CTRL_CS0 = 0" by (simp only: f and_zero_eq zero_and_eq)
  have "?v AND CTRL_CS1 = (?v AND (CTRL_CS0 OR CTRL_CS1)) AND CTRL_CS1"
    by (simp only: and.assoc cs_field)
  then show "?v AND CTRL_CS1 = 0" by (simp only: f and_zero_eq zero_and_eq)
qed

lemma deselect_device_written:
  assumes "initialized s"
  shows "spi_deselect_device d cs_line s =
           (SPI_OK, SPI_REG_set d SPI_CONTROL
              (if cs_line = SPI_CS_0 then fst (SPI_REG_get d SPI_CONTROL s) AND NOT CTRL_CS0
               else if cs_line = SPI_CS_1 then fst (SPI_REG_get d SPI_CONTROL s) AND NOT CTRL_CS1
               else fst (SPI_REG_get d SPI_CONTROL s) AND NOT (CTRL_CS0 OR CTRL_CS1))
              (snd (SPI_REG_get d SPI_CONTROL s)))"
  using assms by (simp add: spi_deselect_device_def split_def Let_def)

lemma bench_select_control:
  assumes "initialized b"
  shows "reg_control (hw (snd (spi_select_device bench_dev SPI_CS_2 b))) =
           (reg_control (hw b) AND NOT (CTRL_CS0 OR CTRL_CS1) OR CTRL_CS0)"
    and "reg_control (hw (snd (spi_select_device bench_dev SPI_CS_3 b))) =
           (reg_control (hw b) AND NOT (CTRL_CS0 OR CTRL_CS1) OR CTRL_CS1)"
  using assms by (simp_all add: select_device_written enums)

lemma bench_deselect_control:
  assumes "initialized b" and "cs_line \<noteq> SPI_CS_0" and "cs_line \<noteq> SPI_CS_1"
  shows "reg_control (hw (snd (spi_deselect_device bench_dev cs_line b))) =
           (reg_control (hw b) AND NOT (CTRL_CS0 OR CTRL_CS1))"
  using assms(2,3) by (simp add: deselect_device_written [OF assms(1)])

text \<open>
  Claim C5. On an initialized controller, selecting CS2 writes a Control value with the
  CS0 bit set (and CS1 clear), selecting CS3 one with the CS1 bit set (and CS0 clear), and
  deselecting any line other than CS0 and CS1 writes a Control value with both bits
  clear. On the register bank Control then holds these bits.
\<close>
theorem chip_select_aliasing:
  assumes "initialized s" and "initialized b"
    and "cs_line \<noteq> SPI_CS_0" and "cs_line \<noteq> SPI_CS_1"
  shows "(\<exists>v. spi_select_device d SPI_CS_2 s =
               (SPI_OK, (SPI_REG_set d SPI_CONTROL v (snd (SPI_REG_get d SPI_CONTROL s)))
                          \<lparr>current_cs := SPI_CS_2\<rparr>)
            \<and> v AND CTRL_CS0 = CTRL_CS0 \<and> v AND CTRL_CS1 = 0)
       \<and> (\<exists>v. spi_select_device d SPI_CS_3 s =
               (SPI_OK, (SPI_REG_set d SPI_CONTROL v (snd (SPI_REG_get d SPI_CONTROL s)))
                          \<lparr>current_cs := SPI_CS_3\<rparr>)
            \<and> v AND CTRL_CS1 = CTRL_CS1 \<and> v AND CTRL_CS0 = 0)
       \<and> (\<exists>v. spi_deselect_device d cs_line s =
               (SPI_OK, SPI_REG_set d SPI_CONTROL v (snd (SPI_REG_get d SPI_CONTROL s)))
            \<and> v AND CTRL_CS0 = 0 \<and> v AND CTRL_CS1 = 0)
       \<and> reg_control (hw (snd (spi_select_device bench_dev SPI_CS_2 b))) AND CTRL_CS0 = CTRL_CS0
       \<and> reg_control (hw (snd (spi_select_device bench_dev SPI_CS_3 b))) AND CTRL_CS1 = CTRL_CS1
       \<and> reg_control (hw (snd (spi_deselect_device bench_dev cs_line b))) AND CTRL_CS0 = 0
       \<and> reg_control (hw (snd (spi_deselect_device bench_dev cs_line b))) AND CTRL_CS1 = 0"
proof (intro conjI)
  let ?c = "fst (SPI_REG_get d SPI_CONTROL s) AND NOT (CTRL_CS0 OR CTRL_CS1)"
  show "\<exists>v. spi_select_device d SPI_CS_2 s =
               (SPI_OK, (SPI_REG_set d SPI_CONTROL v (snd (SPI_REG_get d SPI_CONTROL s)))
                          \<lparr>current_cs := SPI_CS_2\<rparr>)
            \<and> v AND CTRL_CS0 = CTRL_CS0 \<and> v AND CTRL_CS1 = 0"
  proof (intro exI [of _ "?c OR CTRL_CS0"] conjI)
    show "spi_select_device d SPI_CS_2 s =
               (SPI_OK, (SPI_REG_set d SPI_CONTROL (?c OR CTRL_CS0) (snd (SPI_REG_get d SPI_CONTROL s)))
                          \<lparr>current_cs := SPI_CS_2\<rparr>)"
      by (simp add: select_device_written [OF assms(1)])
  qed (rule cs_set0)+
  show "\<exists>v. spi_select_device d SPI_CS_3 s =
               (SPI_OK, (SPI_REG_set d SPI_CONTROL v (snd (SPI_REG_get d SPI_CONTROL s)))
                          \<lparr>current_cs := SPI_CS_3\<rparr>)
            \<and> v AND CTRL_CS1 = CTRL_CS1 \<and> v AND CTRL_CS0 = 0"
  proof (intro exI [of _ "?c OR CTRL_CS1"] conjI)
    show "spi_select_device d SPI_CS_3 s =
               (SPI_OK, (SPI_REG_set d SPI_CONTROL (?c OR CTRL_CS1) (snd (SPI_REG_get d SPI_CONTROL s)))
                          \<lparr>current_cs := SPI_CS_3\<rparr>)"
      by (simp add: select_device_written [OF assms(1)] enums)
  qed (rule cs_set1)+
  show "\<exists>v. spi_deselect_device d cs_line s =
               (SPI_OK, SPI_REG_set d SPI_CONTROL v (snd (SPI_REG_get d SPI_CONTROL s)))
            \<and> v AND CTRL_CS0 = 0 \<and> v AND CTRL_CS1 = 0"
  proof (intro exI [of _ "?c"] conjI)
    show "spi_deselect_device d cs_line s =
               (SPI_OK, SPI_REG_set d SPI_CONTROL ?c (snd (SPI_REG_get d SPI_CONTROL s)))"
      using assms(3,4) by (simp add: deselect_device_written [OF assms(1)])
  qed (rule cs_clear)+
  show "reg_control (hw (snd (spi_select_device bench_dev SPI_CS_2 b))) AND CTRL_CS0 = CTRL_CS0"
    unfolding bench_select_control [OF assms(2)] by (rule cs_set0)
  show "reg_control (hw (snd (spi_select_device bench_dev SPI_CS_3 b))) AND CTRL_CS1 = CTRL_CS1"
    unfolding bench_select_control [OF assms(2)] by (rule cs_set1)
  show "reg_control (hw (snd (spi_deselect_device bench_dev cs_line b))) AND CTRL_CS0 = 0"
    unfolding bench_deselect_control [OF assms(2,3,4)] by (rule cs_clear)
  show "reg_control (hw (snd (spi_deselect_device bench_dev cs_line b))) AND CTRL_CS1 = 0"
    unfolding bench_deselect_control [OF assms(2,3,4)] by (rule cs_clear)
qed

theorem chip_select_aliasing_witness:
  "initialized ready \<and> SPI_CS_2 \<noteq> SPI_CS_0 \<and> SPI_CS_2 \<noteq> SPI_CS_1
   \<and> reg_control (hw (snd (spi_select_device bench_dev SPI_CS_2 ready))) AND CTRL_CS0 = CTRL_CS0
   \<and> reg_control (hw (snd (spi_select_device bench_dev SPI_CS_3 ready))) AND CTRL_CS1 = CTRL_CS1
   \<and> reg_control (hw (snd (spi_deselect_device bench_dev SPI_CS_2 ready))) AND CTRL_CS0 = 0
   \<and> reg_control (hw (snd (spi_deselect_device bench_dev SPI_CS_2 ready))) AND CTRL_CS1 = 0"
proof -
  have h: "initialized ready" by (simp add: ready_eq)
  have n0: "SPI_CS_2 \<noteq> SPI_CS_0" and n1: "SPI_CS_2 \<noteq> SPI_CS_1" by (simp_all add: enums)
  show ?thesis
    using h n0 n1 chip_select_aliasing [OF h h n0 n1, of bench_dev] by blast
qed

lemma init_written:
  "hw (spi_init d mode clk_div s) =
     wr32 d SPI_STATUS 0 (wr32 d SPI_CLK_DIV (ucast clk_div) (wr32 d SPI_CONTROL
       ((if mode = SPI_MODE_1 then CTRL_MODE0 else if mode = SPI_MODE_2 then CTRL_MODE1
         else if mode = SPI_MODE_3 then CTRL_MODE0 OR CTRL_MODE1 else 0) OR
        (if current_cs s = SPI_CS_0 then CTRL_CS0
         else if current_cs s = SPI_CS_1 then CTRL_CS1 else 0)) (hw s)))"
  by (simp add: spi_init_def SPI_REG_set_def enums)

lemma mode_bits_no_cs:
  "(if mode = SPI_MODE_1 then CTRL_MODE0 else if mode = SPI_MODE_2 then CTRL_MODE1
    else if mode = SPI_MODE_3 then CTRL_MODE0 OR CTRL_MODE1 else 0) AND CTRL_CS0 = 0"
  "(if mode = SPI_MODE_1 then CTRL_MODE0 else if mode = SPI_MODE_2 then CTRL_MODE1
    else if mode = SPI_MODE_3 then CTRL_MODE0 OR CTRL_MODE1 else 0) AND CTRL_CS1 = 0"
  by (simp_all add: CTRL_MODE0_def CTRL_MODE1_def CTRL_CS0_def CTRL_CS1_def)

lemma init_control_no_cs:
  assumes "current_cs s = SPI_CS_2 \<or> current_cs s = SPI_CS_3"
  shows "\<exists>v. hw (spi_init d mode clk_div s) =
             wr32 d SPI_STATUS 0 (wr32 d SPI_CLK_DIV (ucast clk_div) (wr32 d SPI_CONTROL v (hw s)))
           \<and> v AND CTRL_CS0 = 0 \<and> v AND CTRL_CS1 = 0"
proof -
  let ?m = "if mode = SPI_MODE_1 then CTRL_MODE0 else if mode = SPI_MODE_2 then CTRL_MODE1
    else if mode = SPI_MODE_3 then CTRL_MODE0 OR CTRL_MODE1 else 0"
  have cs: "(if current_cs s = SPI_CS_0 then CTRL_CS0
         else if current_cs s = SPI_CS_1 then CTRL_CS1 else 0) = 0"
    using assms by (auto simp: enums)
  have "hw (spi_init d mode clk_div s) =
     wr32 d SPI_STATUS 0 (wr32 d SPI_CLK_DIV (ucast clk_div) (wr32 d SPI_CONTROL ?m (hw s)))"
    unfolding init_written cs by simp
  with mode_bits_no_cs [of mode] show ?thesis by blast
qed

lemma select_sets_current_cs:
  assumes "initialized b"
  shows "current_cs (snd (spi_select_device d SPI_CS_2 b)) = SPI_CS_2"
    and "current_cs (snd (spi_select_device d SPI_CS_3 b)) = SPI_CS_3"
  using assms by (simp_all add: select_device_written SPI_REG_set_def SPI_REG_get_def Let_def)

lemma bench_init_control:
  assumes "current_cs b = SPI_CS_2 \<or> current_cs b = SPI_CS_3"
  shows "reg_control (hw (spi_init bench_dev mode clk_div b)) AND CTRL_CS0 = 0"
    and "reg_control (hw (spi_init bench_dev mode clk_div b)) AND CTRL_CS1 = 0"
proof -
  from init_control_no_cs [OF assms, of bench_dev mode clk_div]
  obtain v where v: "hw (spi_init bench_dev mode clk_div b) =
             wr32 bench_dev SPI_STATUS 0 (wr32 bench_dev SPI_CLK_DIV (ucast clk_div)
               (wr32 bench_dev SPI_CONTROL v (hw b)))"
     and z: "v AND CTRL_CS0 = 0" "v AND CTRL_CS1 = 0" by blast
  have "reg_control (hw (spi_init bench_dev mode clk_div b)) = v"
    unfolding v by (simp add: benchs offs)
  with z show "reg_control (hw (spi_init bench_dev mode clk_div b)) AND CTRL_CS0 = 0"
    and "reg_control (hw (spi_init bench_dev mode clk_div b)) AND CTRL_CS1 = 0" by simp_all
qed

text \<open>
  Claim C10. When \<open>current_cs\<close> is CS2 or CS3, the Control value that \<open>spi_init\<close> writes
  has neither the CS0 nor the CS1 bit set. On the register bank: after
  \<open>spi_select_device\<close> of CS2 (CS3) the Control register has the CS0 (CS1) bit set, and a
  following \<open>spi_init\<close> leaves both bits clear, so the alias is applied by the selection
  only.
\<close>
theorem init_never_aliases:
  assumes "current_cs s = SPI_CS_2 \<or> current_cs s = SPI_CS_3" and "initialized b"
  shows "(\<exists>v. hw (spi_init d mode clk_div s) =
             wr32 d SPI_STATUS 0 (wr32 d SPI_CLK_DIV (ucast clk_div) (wr32 d SPI_CONTROL v (hw s)))
           \<and> v AND CTRL_CS0 = 0 \<and> v AND CTRL_CS1 = 0)
       \<and> reg_control (hw (snd (spi_select_device bench_dev SPI_CS_2 b))) AND CTRL_CS0 = CTRL_CS0
       \<and> reg_control (hw (spi_init bench_dev mode clk_div
             (snd (spi_select_device bench_dev SPI_CS_2 b)))) AND CTRL_CS0 = 0
       \<and> reg_control (hw (spi_init bench_dev mode clk_div
             (snd (spi_select_device bench_dev SPI_CS_2 b)))) AND CTRL_CS1 = 0
       \<and> reg_control (hw (snd (spi_select_device bench_dev SPI_CS_3 b))) AND CTRL_CS1 = CTRL_CS1
       \<and> reg_control (hw (spi_init bench_dev mode clk_div
             (snd (spi_select_device bench_dev SPI_CS_3 b)))) AND CTRL_CS0 = 0
       \<and> reg_control (hw (spi_init bench_dev mode clk_div
             (snd (spi_select_device bench_dev SPI_CS_3 b)))) AND CTRL_CS1 = 0"
proof -
  have a2: "reg_control (hw (snd (spi_select_device bench_dev SPI_CS_2 b))) AND CTRL_CS0 = CTRL_CS0"
    unfolding bench_select_control [OF assms(2)] by (rule cs_set0)
  have a3: "reg_control (hw (snd (spi_select_device bench_dev SPI_CS_3 b))) AND CTRL_CS1 = CTRL_CS1"
    unfolding bench_select_control [OF assms(2)] by (rule cs_set1)
  have c2: "current_cs (snd (spi_select_device bench_dev SPI_CS_2 b)) = SPI_CS_2
      \<or> current_cs (snd (spi_select_device bench_dev SPI_CS_2 b)) = SPI_CS_3"
    using select_sets_current_cs(1) [OF assms(2)] by blast
  have c3: "current_cs (snd (spi_select_device bench_dev SPI_CS_3 b)) = SPI_CS_2
      \<or> current_cs (snd (spi_select_device bench_dev SPI_CS_3 b)) = SPI_CS_3"
    using select_sets_current_cs(2) [OF assms(2)] by blast
  show ?thesis
    using init_control_no_cs [OF assms(1), of d mode clk_div] a2 a3
      bench_init_control [OF c2, of mode clk_div] bench_init_control [OF c3, of mode clk_div]
    by blast
qed

theorem init_never_aliases_witness:
  "current_cs (snd (spi_select_device bench_dev SPI_CS_2 ready)) = SPI_CS_2
   \<and> initialized ready
   \<and> reg_control (hw (snd (spi_select_device bench_dev SPI_CS_2 ready))) AND CTRL_CS0 = CTRL_CS0
   \<and> reg_control (hw (spi_init bench_dev SPI_MODE_0 4
         (snd (spi_select_device bench_dev SPI_CS_2 ready)))) AND CTRL_CS0 = 0
   \<and> reg_control (hw (spi_init bench_dev SPI_MODE_0 4
         (snd (spi_select_device bench_dev SPI_CS_2 ready)))) AND CTRL_CS1 = 0"
proof -
  have h: "initialized ready" by (simp add: ready_eq)
  have c: "current_cs (snd (spi_select_device bench_dev SPI_CS_2 ready)) = SPI_CS_2"
    by (rule select_sets_current_cs [OF h])
  then have c': "current_cs (snd (spi_select_device bench_dev SPI_CS_2 ready)) = SPI_CS_2
       \<or> current_cs (snd (spi_select_device bench_dev SPI_CS_2 ready)) = SPI_CS_3" by blast
  show ?thesis
    using h c init_never_aliases [OF c' h, of bench_dev SPI_MODE_0 4] by blast
qed

text \<open>
  Claim C2. On an initialized controller whose Status read shows the Busy bit,
  \<open>spi_transfer\<close> returns \<open>SPI_ERROR_BUSY\<close>, stores no received byte, and the hardware has
  seen exactly that one read of Status, on every device: there is no write to TxData and
  no write to Control. On the register bank, TxData and Control are as before the call.
\<close>
theorem transfer_while_busy:
  assumes "initialized s" and "fst (rd32 d SPI_STATUS (hw s)) AND STAT_BUSY \<noteq> 0"
    and "initialized b" and "fst (rd32 bench_dev SPI_STATUS (hw b)) AND STAT_BUSY \<noteq> 0"
  shows "spi_transfer d tx_byte rx_ptr s =
           Some (SPI_ERROR_BUSY, None, s\<lparr>hw := snd (rd32 d SPI_STATUS (hw s))\<rparr>)
       \<and> (\<exists>b'. spi_transfer bench_dev tx_byte rx_ptr b = Some (SPI_ERROR_BUSY, None, b')
              \<and> reg_tx_data (hw b') = reg_tx_data (hw b)
              \<and> reg_control (hw b') = reg_control (hw b))"
proof -
  have g: "spi_transfer d tx_byte rx_ptr s =
           Some (SPI_ERROR_BUSY, None, s\<lparr>hw := snd (rd32 d SPI_STATUS (hw s))\<rparr>)"
    if "initialized s" and "fst (rd32 d SPI_STATUS (hw s)) AND STAT_BUSY \<noteq> 0"
    for d and s :: "'x spi"
    using that by (simp add: spi_transfer_def spi_is_busy_def SPI_REG_get_def Let_def)
  have k: "reg_tx_data (snd (rd32 bench_dev SPI_STATUS (hw b))) = reg_tx_data (hw b)
      \<and> reg_control (snd (rd32 bench_dev SPI_STATUS (hw b))) = reg_control (hw b)"
    by (simp add: benchs split: list.split)
  show ?thesis
    using g [OF assms(1,2)] g [OF assms(3,4)] k by simp
qed

theorem transfer_while_busy_witness:
  "initialized ready_busy
   \<and> fst (rd32 bench_dev SPI_STATUS (hw ready_busy)) AND STAT_BUSY \<noteq> 0
   \<and> spi_transfer bench_dev 0x55 True ready_busy = Some (SPI_ERROR_BUSY, None, ready_busy)"
proof -
  have h: "initialized ready_busy" by (simp add: ready_busy_def ready_eq)
  have b: "fst (rd32 bench_dev SPI_STATUS (hw ready_busy)) AND STAT_BUSY \<noteq> 0"
    by (simp add: ready_busy_def ready_eq benchs bench0_def STAT_BUSY_def)
  have e: "snd (rd32 bench_dev SPI_STATUS (hw ready_busy)) = hw ready_busy"
    by (simp add: ready_busy_def ready_eq benchs bench0_def)
  show ?thesis
    using h b transfer_while_busy [OF h b h b, of "0x55" True] by (simp add: e)
qed

lemma spi_transfer_ok_stores:
  "spi_transfer d tx_byte True s = Some (SPI_OK, r, s') \<Longrightarrow> r \<noteq> None"
  by (auto simp: spi_transfer_def Let_def split_def split: if_splits option.splits)

lemma write_loop_split:
  "spi_write_bytes_loop d data i j s = Some (SPI_OK, si) \<Longrightarrow> j \<le> i \<Longrightarrow> i \<le> len \<Longrightarrow>
   spi_write_bytes_loop d data len j s = spi_write_bytes_loop d data len i si"
proof (induction d data i j s rule: spi_write_bytes_loop.induct)
  case (1 d data i' j s)
  show ?case
  proof (cases "j < i'")
    case False
    with "1.prems" have "j = i'" by simp
    with "1.prems"(1) show ?thesis by (simp add: spi_write_bytes_loop.simps [of d data i' i'])
  next
    case True
    with "1.prems" have jl: "j < len" by simp
    from True "1.prems"(1) obtain r s1 where
      t: "spi_transfer d (data ! j) False s = Some (SPI_OK, r, s1)"
      and rest: "spi_write_bytes_loop d data i' (j + 1) s1 = Some (SPI_OK, si)"
      by (subst (asm) spi_write_bytes_loop.simps) (auto split: option.splits if_splits)
    have "spi_write_bytes_loop d data len (j + 1) s1 = spi_write_bytes_loop d data len i' si"
      using "1.IH" [OF True t refl refl _ rest] True "1.prems" by simp
    then show ?thesis
      using jl t by (subst spi_write_bytes_loop.simps) simp
  qed
qed

lemma read_loop_split:
  "spi_read_bytes_loop d buf i j s = Some (SPI_OK, bi, si) \<Longrightarrow> j \<le> i \<Longrightarrow> i \<le> len \<Longrightarrow>
   spi_read_bytes_loop d buf len j s = spi_read_bytes_loop d bi len i si"
proof (induction d buf i j s rule: spi_read_bytes_loop.induct)
  case (1 d buf i' j s)
  show ?case
  proof (cases "j < i'")
    case False
    with "1.prems" have "j = i'" by simp
    with "1.prems"(1) show ?thesis by (simp add: spi_read_bytes_loop.simps [of d buf i' i'])
  next
    case True
    with "1.prems" have jl: "j < len" by simp
    from True "1.prems"(1) obtain r s1 where
      t: "spi_transfer d 0xFF True s = Some (SPI_OK, r, s1)"
      and rest: "spi_read_bytes_loop d (case r of Some v \<Rightarrow> buf[j := v] | None \<Rightarrow> buf) i' (j + 1) s1
                   = Some (SPI_OK, bi, si)"
      by (subst (asm) spi_read_bytes_loop.simps) (auto split: option.splits if_splits)
    have "spi_read_bytes_loop d (case r of Some v \<Rightarrow> buf[j := v] | None \<Rightarrow> buf) len (j + 1) s1
            = spi_read_bytes_loop d bi len i' si"
      using "1.IH" [OF True t refl refl _ rest] True "1.prems" by simp
    then show ?thesis
      using jl t by (subst spi_read_bytes_loop.simps) simp
  qed
qed

lemma transfer_loop_split:
  "spi_transfer_bytes_loop d tx rx i j s = Some (SPI_OK, rxi, si) \<Longrightarrow> j \<le> i \<Longrightarrow> i \<le> len \<Longrightarrow>
   spi_transfer_bytes_loop d tx rx len j s = spi_transfer_bytes_loop d tx rxi len i si"
proof (induction d tx rx i j s rule: spi_transfer_bytes_loop.induct)
  case (1 d tx rx i' j s)
  let ?b = "case tx of Some xs \<Rightarrow> xs ! j | None \<Rightarrow> 0xFF"
  show ?case
  proof (cases "j < i'")
    case False
    with "1.prems" have "j = i'" by simp
    with "1.prems"(1) show ?thesis by (simp add: spi_transfer_bytes_loop.simps [of d tx rx i' i'])
  next
    case True
    with "1.prems" have jl: "j < len" by simp
    let ?rx = "\<lambda>r. case rx of None \<Rightarrow> None
                 | Some buf \<Rightarrow> (case r of Some v \<Rightarrow> Some (buf[j := v]) | None \<Rightarrow> Some buf)"
    from True "1.prems"(1) obtain r s1 where
      t: "spi_transfer d ?b True s = Some (SPI_OK, r, s1)"
      and rest: "spi_transfer_bytes_loop d tx (?rx r) i' (j + 1) s1 = Some (SPI_OK, rxi, si)"
      by (subst (asm) spi_transfer_bytes_loop.simps) (auto simp: Let_def split: option.splits if_splits)
    have "spi_transfer_bytes_loop d tx (?rx r) len (j + 1) s1
            = spi_transfer_bytes_loop d tx rxi len i' si"
      using "1.IH" [OF True refl t refl refl _ rest] True "1.prems" by simp
    then show ?thesis
      using jl t by (subst spi_transfer_bytes_loop.simps) (simp add: Let_def)
  qed
qed

text \<open>
  Claim C7. Let the first \<open>i\<close> single-byte transfers of a bulk operation succeed (the
  operation run on the first \<open>i\<close> bytes returns \<open>SPI_OK\<close>, reaching the state \<open>si\<close> and,
  for the reading operations, the buffer contents \<open>bi\<close>) and let the transfer at position
  \<open>i\<close> fail with the error \<open>e\<close>, leaving the state \<open>s'\<close>. Then \<open>spi_write_bytes\<close>,
  \<open>spi_read_bytes\<close> and \<open>spi_transfer_bytes\<close> on the whole sequence return exactly \<open>e\<close>,
  in exactly the state \<open>s'\<close> of the failed transfer (nothing is transferred after position
  \<open>i\<close>), and with the buffer as the first \<open>i\<close> transfers left it (nothing is rolled back).
\<close>
theorem bulk_stops_at_first_error:
  "(spi_write_bytes d (Some data) i s = Some (SPI_OK, si) \<and> i < len
      \<and> spi_transfer d (data ! i) False si = Some (e, r, s') \<and> e \<noteq> SPI_OK
     \<longrightarrow> spi_write_bytes d (Some data) len s = Some (e, s'))
   \<and> (spi_read_bytes d (Some buffer) i s = Some (SPI_OK, Some bi, si) \<and> i < len
      \<and> spi_transfer d 0xFF True si = Some (e, r, s') \<and> e \<noteq> SPI_OK
     \<longrightarrow> spi_read_bytes d (Some buffer) len s = Some (e, Some bi, s'))
   \<and> (spi_transfer_bytes d tx_data rx_data i s = Some (SPI_OK, rxi, si) \<and> i < len
      \<and> (tx_data \<noteq> None \<or> rx_data \<noteq> None)
      \<and> spi_transfer d (case tx_data of Some xs \<Rightarrow> xs ! i | None \<Rightarrow> 0xFF) True si = Some (e, r, s')
      \<and> e \<noteq> SPI_OK
     \<longrightarrow> spi_transfer_bytes d tx_data rx_data len s = Some (e, rxi, s'))"
proof (intro conjI impI; elim conjE)
  assume p: "spi_write_bytes d (Some data) i s = Some (SPI_OK, si)" and il: "i < len"
    and t: "spi_transfer d (data ! i) False si = Some (e, r, s')" and e: "e \<noteq> SPI_OK"
  from p have init: "initialized s"
    by (auto simp: spi_write_bytes_def split: if_splits)
  with p have "spi_write_bytes_loop d data i 0 s = Some (SPI_OK, si)"
    by (simp add: spi_write_bytes_def)
  from write_loop_split [OF this, of len] il
  have "spi_write_bytes_loop d data len 0 s = spi_write_bytes_loop d data len i si" by simp
  also have "\<dots> = Some (e, s')"
    using il t e by (subst spi_write_bytes_loop.simps) simp
  finally show "spi_write_bytes d (Some data) len s = Some (e, s')"
    using init by (simp add: spi_write_bytes_def)
next
  assume p: "spi_read_bytes d (Some buffer) i s = Some (SPI_OK, Some bi, si)" and il: "i < len"
    and t: "spi_transfer d 0xFF True si = Some (e, r, s')" and e: "e \<noteq> SPI_OK"
  from p have init: "initialized s"
    by (auto simp: spi_read_bytes_def split: if_splits)
  with p have "spi_read_bytes_loop d buffer i 0 s = Some (SPI_OK, bi, si)"
    by (auto simp: spi_read_bytes_def split: option.splits)
  from read_loop_split [OF this, of len] il
  have "spi_read_bytes_loop d buffer len 0 s = spi_read_bytes_loop d bi len i si" by simp
  also have "\<dots> = Some (e, bi, s')"
    using il t e by (subst spi_read_bytes_loop.simps) simp
  finally show "spi_read_bytes d (Some buffer) len s = Some (e, Some bi, s')"
    using init by (simp add: spi_read_bytes_def)
next
  assume p: "spi_transfer_bytes d tx_data rx_data i s = Some (SPI_OK, rxi, si)" and il: "i < len"
    and nn: "tx_data \<noteq> None \<or> rx_data \<noteq> None"
    and t: "spi_transfer d (case tx_data of Some xs \<Rightarrow> xs ! i | None \<Rightarrow> 0xFF) True si = Some (e, r, s')"
    and e: "e \<noteq> SPI_OK"
  from p have init: "initialized s"
    by (auto simp: spi_transfer_bytes_def split: if_splits)
  with p nn have "spi_transfer_bytes_loop d tx_data rx_data i 0 s = Some (SPI_OK, rxi, si)"
    by (auto simp: spi_transfer_bytes_def split: if_splits)
  from transfer_loop_split [OF this, of len] il
  have "spi_transfer_bytes_loop d tx_data rx_data len 0 s
          = spi_transfer_bytes_loop d tx_data rxi len i si" by simp
  also have "\<dots> = Some (e, rxi, s')"
    using il t e by (subst spi_transfer_bytes_loop.simps) (simp add: Let_def)
  finally show "spi_transfer_bytes d tx_data rx_data len s = Some (e, rxi, s')"
    using init nn by (auto simp: spi_transfer_bytes_def)
qed

lemmas run_defs = spi_transfer_def spi_is_busy_def spi_has_error_def spi_write_bytes_def
  spi_read_bytes_def spi_transfer_bytes_def spi_write_bytes_loop.simps spi_read_bytes_loop.simps
  spi_transfer_bytes_loop.simps spi_transfer_wait.simps
  bus benchs offs bits ready_eq ready_hw_def bench0_def

theorem bulk_stops_at_first_error_witness:
  "spi_write_bytes bench_dev (Some [0x41, 0x42, 0x43]) 3 (ready_hw 0 [0, STAT_BUSY]) =
     Some (SPI_ERROR_BUSY,
           \<lparr>current_mode = 0, current_cs = 0, initialized = True,
              hw = bench0\<lparr>reg_control := 9, reg_status := 1, reg_tx_data := 0x41,
                          reg_clk_div := 4\<rparr>\<rparr>)
   \<and> spi_read_bytes bench_dev (Some [0, 0, 0]) 3 (ready_hw 0x5A [0, 0, 0, 0, 0, STAT_ERROR]) =
     Some (SPI_ERROR_TIMEOUT, Some [0x5A, 0, 0],
           \<lparr>current_mode = 0, current_cs = 0, initialized = True,
              hw = bench0\<lparr>reg_control := 9, reg_status := 64, reg_tx_data := 0xFF,
                          reg_rx_data := 0x5A, reg_clk_div := 4\<rparr>\<rparr>)
   \<and> spi_transfer_bytes bench_dev (Some [1, 2, 3]) (Some [0, 0, 0]) 3
         (ready_hw 0x5A [0, 0, 0, 0, 0, STAT_ERROR]) =
     Some (SPI_ERROR_TIMEOUT, Some [0x5A, 0, 0],
           \<lparr>current_mode = 0, current_cs = 0, initialized = True,
              hw = bench0\<lparr>reg_control := 9, reg_status := 64, reg_tx_data := 2,
                          reg_rx_data := 0x5A, reg_clk_div := 4\<rparr>\<rparr>)"
proof -
  let ?w1 = "\<lparr>current_mode = 0, current_cs = 0, initialized = True,
              hw = bench0\<lparr>reg_control := 9, reg_tx_data := 0x41, reg_clk_div := 4,
                          status_script := [STAT_BUSY]\<rparr>\<rparr>"
  let ?w2 = "\<lparr>current_mode = 0, current_cs = 0, initialized = True,
              hw = bench0\<lparr>reg_control := 9, reg_status := 1, reg_tx_data := 0x41,
                          reg_clk_div := 4\<rparr>\<rparr>"
  have w: "spi_write_bytes bench_dev (Some [0x41, 0x42, 0x43]) 1 (ready_hw 0 [0, STAT_BUSY]) =
             Some (SPI_OK, ?w1)
         \<and> (1::nat) < 3
         \<and> spi_transfer bench_dev ([0x41, 0x42, 0x43] ! 1) False ?w1 =
             Some (SPI_ERROR_BUSY, None, ?w2)
         \<and> SPI_ERROR_BUSY \<noteq> SPI_OK"
    by (simp add: run_defs)
  let ?r1 = "\<lparr>current_mode = 0, current_cs = 0, initialized = True,
              hw = bench0\<lparr>reg_control := 9, reg_tx_data := 0xFF, reg_rx_data := 0x5A,
                          reg_clk_div := 4, status_script := [0, 0, STAT_ERROR]\<rparr>\<rparr>"
  let ?r2 = "\<lparr>current_mode = 0, current_cs = 0, initialized = True,
              hw = bench0\<lparr>reg_control := 9, reg_status := 64, reg_tx_data := 0xFF,
                          reg_rx_data := 0x5A, reg_clk_div := 4\<rparr>\<rparr>"
  have r: "spi_read_bytes bench_dev (Some [0, 0, 0]) 1 (ready_hw 0x5A [0, 0, 0, 0, 0, STAT_ERROR]) =
             Some (SPI_OK, Some [0x5A, 0, 0], ?r1)
         \<and> (1::nat) < 3
         \<and> spi_transfer bench_dev 0xFF True ?r1 = Some (SPI_ERROR_TIMEOUT, None, ?r2)
         \<and> SPI_ERROR_TIMEOUT \<noteq> SPI_OK"
    by (simp add: run_defs)
  let ?t1 = "\<lparr>current_mode = 0, current_cs = 0, initialized = True,
              hw = bench0\<lparr>reg_control := 9, reg_tx_data := 1, reg_rx_data := 0x5A,
                          reg_clk_div := 4, status_script := [0, 0, STAT_ERROR]\<rparr>\<rparr>"
  let ?t2 = "\<lparr>current_mode = 0, current_cs = 0, initialized = True,
              hw = bench0\<lparr>reg_control := 9, reg_status := 64, reg_tx_data := 2,
                          reg_rx_data := 0x5A, reg_clk_div := 4\<rparr>\<rparr>"
  have t: "spi_transfer_bytes bench_dev (Some [1, 2, 3]) (Some [0, 0, 0]) 1
             (ready_hw 0x5A [0, 0, 0, 0, 0, STAT_ERROR]) = Some (SPI_OK, Some [0x5A, 0, 0], ?t1)
         \<and> (1::nat) < 3
         \<and> (Some [1, 2, 3 :: u8] \<noteq> None \<or> Some [0, 0, 0 :: u8] \<noteq> None)
         \<and> spi_transfer bench_dev (case Some [1, 2, 3] of Some xs \<Rightarrow> xs ! 1 | None \<Rightarrow> 0xFF)
               True ?t1 = Some (SPI_ERROR_TIMEOUT, None, ?t2)
         \<and> SPI_ERROR_TIMEOUT \<noteq> SPI_OK"
    by (simp add: run_defs)
  from w r t
    bulk_stops_at_first_error [where d = bench_dev and data = "[0x41, 0x42, 0x43]" and i = 1
      and s = "ready_hw 0 [0, STAT_BUSY]" and si = ?w1 and len = 3 and e = SPI_ERROR_BUSY
      and r = None and s' = ?w2, THEN conjunct1]
    bulk_stops_at_first_error [where d = bench_dev and buffer = "[0, 0, 0]" and i = 1
      and s = "ready_hw 0x5A [0, 0, 0, 0, 0, STAT_ERROR]" and si = ?r1 and len = 3
      and e = SPI_ERROR_TIMEOUT and r = None and s' = ?r2 and bi = "[0x5A, 0, 0]",
      THEN conjunct2, THEN conjunct1]
    bulk_stops_at_first_error [where d = bench_dev and tx_data = "Some [1, 2, 3]"
      and rx_data = "Some [0, 0, 0]" and i = 1
      and s = "ready_hw 0x5A [0, 0, 0, 0, 0, STAT_ERROR]" and si = ?t1 and len = 3
      and e = SPI_ERROR_TIMEOUT and r = None and s' = ?t2 and rxi = "Some [0x5A, 0, 0]",
      THEN conjunct2, THEN conjunct2]
  show ?thesis by (simp add: bench0_def)
qed

lemma blocking_wait_never_returns:
  assumes inv: "\<And>s. P s \<Longrightarrow> fst (spi_is_busy d s) \<and> P (snd (spi_is_busy d s))"
    and "P s"
  shows "spi_transfer_blocking_wait d timeout_ms s = None"
proof (rule ccontr)
  assume "spi_transfer_blocking_wait d timeout_ms s \<noteq> None"
  then obtain y where y: "spi_transfer_blocking_wait d timeout_ms s = Some y" by blast
  have "d' = d \<longrightarrow> \<not> P s'" if "spi_transfer_blocking_wait d' t s' = Some y'" for d' t s' y'
  proof (rule spi_transfer_blocking_wait.raw_induct
      [where P = "\<lambda>d' t s y. d' = d \<longrightarrow> \<not> P s", OF _ that])
    fix w d' t s y
    assume IH: "\<And>d' t s y. w d' t s = Some y \<Longrightarrow> d' = d \<longrightarrow> \<not> P s"
      and step: "(let r = spi_is_busy d' s
                  in if fst r then (if 0 < t then w d' t (snd r) else w d' t (snd r))
                     else Some (snd r)) = Some y"
    show "d' = d \<longrightarrow> \<not> P s"
    proof (intro impI notI)
      assume d: "d' = d" and p: "P s"
      from inv [OF p] have b: "fst (spi_is_busy d s)" and p': "P (snd (spi_is_busy d s))"
        by simp_all
      from step b d have "w d t (snd (spi_is_busy d s)) = Some y"
        by (simp add: Let_def split: if_splits)
      from IH [OF this] p' show False by simp
    qed
  qed
  from this [OF y] assms(2) show False by simp
qed

lemma hung_step:
  "hung (hw s) \<Longrightarrow> fst (spi_is_busy bench_dev s) \<and> hung (hw (snd (spi_is_busy bench_dev s)))"
  by (auto simp: hung_def spi_is_busy_def bus benchs offs Let_def split: list.splits)

lemma blocking_wait_to_wait:
  "spi_transfer_blocking_wait d t s = Some y \<Longrightarrow> spi_transfer_wait d s = Some y"
proof (rule spi_transfer_blocking_wait.raw_induct
    [where P = "\<lambda>d t s y. spi_transfer_wait d s = Some y"])
  fix w d t s y
  assume IH: "\<And>d t s y. w d t s = Some y \<Longrightarrow> spi_transfer_wait d s = Some y"
    and step: "(let r = spi_is_busy d s
                in if fst r then (if 0 < t then w d t (snd r) else w d t (snd r))
                   else Some (snd r)) = Some y"
  show "spi_transfer_wait d s = Some y"
  proof (cases "fst (spi_is_busy d s)")
    case True
    with step have "w d t (snd (spi_is_busy d s)) = Some y"
      by (simp add: Let_def split: if_splits)
    from IH [OF this] True show ?thesis
      by (subst spi_transfer_wait.simps) (simp add: Let_def)
  next
    case False
    with step show ?thesis
      by (subst spi_transfer_wait.simps) (simp add: Let_def)
  qed
qed

lemma wait_to_blocking_wait:
  "spi_transfer_wait d s = Some y \<Longrightarrow> spi_transfer_blocking_wait d t s = Some y"
proof (rule spi_transfer_wait.raw_induct
    [where P = "\<lambda>d s y. spi_transfer_blocking_wait d t s = Some y"])
  fix w d s y
  assume IH: "\<And>d s y. w d s = Some y \<Longrightarrow> spi_transfer_blocking_wait d t s = Some y"
    and step: "(let r = spi_is_busy d s
                in if fst r then w d (snd r) else Some (snd r)) = Some y"
  show "spi_transfer_blocking_wait d t s = Some y"
  proof (cases "fst (spi_is_busy d s)")
    case True
    with step have "w d (snd (spi_is_busy d s)) = Some y"
      by (simp add: Let_def)
    from IH [OF this] True show ?thesis
      by (subst spi_transfer_blocking_wait.simps) (simp add: Let_def)
  next
    case False
    with step show ?thesis
      by (subst spi_transfer_blocking_wait.simps) (simp add: Let_def)
  qed
qed

lemma blocking_wait_ignores_timeout:
  "spi_transfer_blocking_wait d t s = spi_transfer_wait d s"
proof (cases "spi_transfer_blocking_wait d t s")
  case None
  then show ?thesis
    using wait_to_blocking_wait [of d s _ t] by (cases "spi_transfer_wait d s") auto
next
  case (Some y)
  then show ?thesis using blocking_wait_to_wait [of d t s y] by simp
qed

text \<open>
  Claim C4. \<open>spi_transfer_blocking\<close> has no time source and never acts on \<open>timeout_ms\<close>:
  on every device and in every state it does what it does for the timeout 0. On a
  controller that is idle when the transfer is started and then keeps the Busy bit set,
  the call polls forever, whatever the timeout: it never returns, so it does not return
  \<open>SPI_ERROR_TIMEOUT\<close>.
\<close>
theorem transfer_blocking_never_times_out:
  "spi_transfer_blocking d tx_data rx_data timeout_ms s =
     spi_transfer_blocking d tx_data rx_data 0 s
   \<and> spi_transfer_blocking bench_dev 0xAA True timeout_ms (ready_hw 0 [0, STAT_BUSY]) = None"
proof
  show "spi_transfer_blocking d tx_data rx_data timeout_ms s =
          spi_transfer_blocking d tx_data rx_data 0 s"
    unfolding spi_transfer_blocking_def blocking_wait_ignores_timeout by (rule refl)
next
  let ?s1 = "\<lparr>current_mode = 0, current_cs = 0, initialized = True,
              hw = bench0\<lparr>reg_control := 9, reg_tx_data := 0xAA, reg_clk_div := 4,
                          status_script := [STAT_BUSY]\<rparr>\<rparr>"
  have t: "spi_transfer bench_dev 0xAA False (ready_hw 0 [0, STAT_BUSY]) = Some (SPI_OK, None, ?s1)"
    by (simp add: run_defs)
  have "hung (hw (snd (spi_is_busy bench_dev ?s1)))" and b: "fst (spi_is_busy bench_dev ?s1)"
    by (simp_all add: hung_def spi_is_busy_def bus benchs offs bits bench0_def)
  then have "spi_transfer_blocking_wait bench_dev timeout_ms (snd (spi_is_busy bench_dev ?s1)) = None"
    using blocking_wait_never_returns [of "\<lambda>s. hung (hw s)" bench_dev] hung_step by blast
  then have "spi_transfer_blocking_wait bench_dev timeout_ms ?s1 = None"
    using b by (subst spi_transfer_blocking_wait.simps) (simp add: Let_def)
  moreover have "initialized (ready_hw 0 [0, STAT_BUSY])"
    by (simp add: ready_hw_def ready_eq)
  ultimately show "spi_transfer_blocking bench_dev 0xAA True timeout_ms (ready_hw 0 [0, STAT_BUSY]) = None"
    using t by (simp add: spi_transfer_blocking_def)
qed









lemma bench_tx_data_set:
  "SPI_REG8_set bench_dev SPI_TX_DATA v b = b\<lparr>hw := (hw b)\<lparr>reg_tx_data := v\<rparr>\<rparr>"
  by (simp add: bus benchs offs)

lemma loopback_on_eq:
  "loopback_on = \<lparr>current_mode = 0, current_cs = 0, initialized = True,
     hw = bench0\<lparr>reg_control := 136, reg_clk_div := 4\<rparr>\<rparr>"
  by (simp add: loopback_on_def spi_enable_loopback_def run_defs)

lemma bench_status_get:
  "fst (SPI_REG_get bench_dev SPI_STATUS b) = fst (status_read (status_stream (hw b)))"
  "status_stream (hw (snd (SPI_REG_get bench_dev SPI_STATUS b))) = status_read (status_stream (hw b))"
  "initialized (snd (SPI_REG_get bench_dev SPI_STATUS b)) = initialized b"
  "reg_control (hw (snd (SPI_REG_get bench_dev SPI_STATUS b))) = reg_control (hw b)"
  "reg_tx_data (hw (snd (SPI_REG_get bench_dev SPI_STATUS b))) = reg_tx_data (hw b)"
  by (auto simp: status_stream_def bus benchs offs Let_def split: list.splits)

lemma bench_wait:
  "status_poll (status_stream (hw s)) = Some st \<Longrightarrow>
   \<exists>s'. spi_transfer_wait bench_dev s = Some s' \<and> status_stream (hw s') = st
        \<and> initialized s' = initialized s \<and> reg_control (hw s') = reg_control (hw s)
        \<and> reg_tx_data (hw s') = reg_tx_data (hw s)"
proof (induction "status_script (hw s)" arbitrary: s)
  case Nil
  then have e: "status_stream (hw s) = (reg_status (hw s), [])" by (simp add: status_stream_def)
  with Nil.prems have nb: "reg_status (hw s) AND STAT_BUSY = 0" and st: "st = (reg_status (hw s), [])"
    by (auto split: if_splits)
  let ?s1 = "snd (SPI_REG_get bench_dev SPI_STATUS s)"
  have "spi_transfer_wait bench_dev s = Some ?s1"
    using nb bench_status_get(1) [of s] e
    by (subst spi_transfer_wait.simps) (simp add: spi_is_busy_def Let_def)
  moreover have "status_stream (hw ?s1) = st"
    using bench_status_get(2) [of s] e st by simp
  ultimately show ?case using bench_status_get(3,4,5) [of s] by blast
next
  case (Cons v vs)
  then have e: "status_stream (hw s) = (reg_status (hw s), v # vs)"
    by (simp add: status_stream_def)
  let ?s1 = "snd (SPI_REG_get bench_dev SPI_STATUS s)"
  have s1: "status_stream (hw ?s1) = (v, vs)" and f1: "fst (SPI_REG_get bench_dev SPI_STATUS s) = v"
    using bench_status_get(1,2) [of s] e by simp_all
  show ?case
  proof (cases "v AND STAT_BUSY = 0")
    case True
    with Cons.prems e have st: "st = (v, vs)" by simp
    have "spi_transfer_wait bench_dev s = Some ?s1"
      using True f1 by (subst spi_transfer_wait.simps) (simp add: spi_is_busy_def Let_def)
    with s1 st show ?thesis using bench_status_get(3,4,5) [of s] by blast
  next
    case False
    with Cons.prems e have p: "status_poll (status_stream (hw ?s1)) = Some st" by (simp add: s1)
    have "vs = status_script (hw ?s1)" using s1 by (simp add: status_stream_def)
    from Cons.hyps(1) [OF this p] obtain s' where
      w: "spi_transfer_wait bench_dev ?s1 = Some s'" and r: "status_stream (hw s') = st"
      "initialized s' = initialized ?s1" "reg_control (hw s') = reg_control (hw ?s1)"
      "reg_tx_data (hw s') = reg_tx_data (hw ?s1)" by blast
    have "spi_transfer_wait bench_dev s = Some s'"
      using False f1 w by (subst spi_transfer_wait.simps) (simp add: spi_is_busy_def Let_def)
    with r show ?thesis using bench_status_get(3,4,5) [of s] by auto
  qed
qed

lemma loopback_kept: "c AND CTRL_LOOPBACK \<noteq> 0 \<Longrightarrow> (c OR CTRL_START) AND CTRL_LOOPBACK \<noteq> 0"
  by (simp add: bit.conj_disj_distrib2 or_eq_0_iff)

lemma bench_loopback_byte:
  assumes "initialized b" and "reg_control (hw b) AND CTRL_LOOPBACK \<noteq> 0"
    and "paced (Suc n) (status_stream (hw b))"
  shows "\<exists>b'. spi_transfer bench_dev x True b = Some (SPI_OK, Some x, b')
            \<and> initialized b' \<and> reg_control (hw b') AND CTRL_LOOPBACK \<noteq> 0
            \<and> paced n (status_stream (hw b'))"
proof -
  define s1 where "s1 = snd (SPI_REG_get bench_dev SPI_STATUS b)"
  define s4 where "s4 = s1\<lparr>hw := (hw s1)\<lparr>reg_tx_data := x,
                               reg_control := reg_control (hw s1) OR CTRL_START\<rparr>\<rparr>"
  note r1 = bench_status_get [of b, folded s1_def]
  from assms(3) obtain st1 where
    idle: "fst (status_read (status_stream (hw b))) AND STAT_BUSY = 0"
    and poll: "status_poll (status_read (status_stream (hw b))) = Some st1"
    and noerr: "fst (status_read st1) AND STAT_ERROR = 0"
    and rest: "paced n (status_read st1)"
    by (auto simp: Let_def split: option.splits)
  have st4: "status_stream (hw s4) = status_read (status_stream (hw b))"
    using r1(2) by (simp add: s4_def status_stream_def)
  from bench_wait [of s4 st1] poll st4 obtain s5 where
    wait: "spi_transfer_wait bench_dev s4 = Some s5" and r5: "status_stream (hw s5) = st1"
    "initialized s5 = initialized s4" "reg_control (hw s5) = reg_control (hw s4)"
    "reg_tx_data (hw s5) = reg_tx_data (hw s4)" by auto
  define s6 where "s6 = snd (SPI_REG_get bench_dev SPI_STATUS s5)"
  note r6 = bench_status_get [of s5, folded s6_def]
  have busy1: "spi_is_busy bench_dev b = (False, s1)"
    using r1(1) idle by (simp add: spi_is_busy_def s1_def Let_def)
  have err: "spi_has_error bench_dev s5 = (False, s6)"
    using r6(1) r5(1) noerr by (simp add: spi_has_error_def s6_def Let_def)
  have lb: "reg_control (hw s6) AND CTRL_LOOPBACK \<noteq> 0"
    using assms(2) r1(4) r5(3) r6(4) by (simp add: s4_def loopback_kept)
  have tx: "reg_tx_data (hw s6) = x"
    using r5(4) r6(5) by (simp add: s4_def)
  have rx: "SPI_REG8_get bench_dev SPI_RX_DATA s6 = (x, s6)"
    using lb tx by (simp add: bus benchs offs)
  have init: "initialized s6"
    using assms(1) r1(3) r5(2) r6(3) by (simp add: s4_def)
  have p: "paced n (status_stream (hw s6))"
    using rest r6(2) r5(1) by simp
  have "spi_transfer bench_dev x True b = Some (SPI_OK, Some x, s6)"
    using assms(1)
    by (simp add: spi_transfer_def busy1 Let_def bench_tx_data_set s4_def [symmetric] wait err rx)
  with init lb p show ?thesis by blast
qed

lemma bench_loopback_loop:
  assumes "len = length tx" and "len \<le> length rx"
  shows "initialized b \<Longrightarrow> reg_control (hw b) AND CTRL_LOOPBACK \<noteq> 0 \<Longrightarrow>
         paced (len - i) (status_stream (hw b)) \<Longrightarrow> i \<le> len \<Longrightarrow> length rx' = length rx \<Longrightarrow>
         \<exists>b'. spi_transfer_bytes_loop bench_dev (Some tx) (Some rx') len i b =
                Some (SPI_OK, Some (take i rx' @ drop i tx @ drop len rx'), b')"
proof (induction "len - i" arbitrary: i rx' b)
  case 0
  then have "i = len" by simp
  then show ?case
    using assms by (subst spi_transfer_bytes_loop.simps) simp
next
  case (Suc n)
  then have il: "i < len" and n: "n = len - (i + 1)" by simp_all
  from Suc.prems(3) Suc.hyps(2) have "paced (Suc n) (status_stream (hw b))" by simp
  from bench_loopback_byte [OF Suc.prems(1,2) this, of "tx ! i"] obtain b1 where
    t: "spi_transfer bench_dev (tx ! i) True b = Some (SPI_OK, Some (tx ! i), b1)"
    and inv: "initialized b1" "reg_control (hw b1) AND CTRL_LOOPBACK \<noteq> 0"
      "paced n (status_stream (hw b1))"
    by blast
  have ir: "i < length rx'" using il assms Suc.prems(5) by simp
  from inv(3) n have p: "paced (len - (i + 1)) (status_stream (hw b1))" by simp
  from Suc.hyps(1) [OF n inv(1,2) p, of "rx'[i := tx ! i]"] il Suc.prems(5)
  obtain b' where
    r: "spi_transfer_bytes_loop bench_dev (Some tx) (Some (rx'[i := tx ! i])) len (i + 1) b1 =
          Some (SPI_OK, Some (take (i + 1) (rx'[i := tx ! i]) @ drop (i + 1) tx
                              @ drop len (rx'[i := tx ! i])), b')"
    by auto
  have "take (i + 1) (rx'[i := tx ! i]) = take i rx' @ [tx ! i]"
    using ir by (simp add: take_Suc_conv_app_nth)
  moreover have "drop i tx = tx ! i # drop (i + 1) tx"
    using il assms(1) by (simp add: Cons_nth_drop_Suc)
  moreover have "drop len (rx'[i := tx ! i]) = drop len rx'"
    using il by simp
  ultimately have "take (i + 1) (rx'[i := tx ! i]) @ drop (i + 1) tx @ drop len (rx'[i := tx ! i])
      = take i rx' @ drop i tx @ drop len rx'" by simp
  with r have "spi_transfer_bytes_loop bench_dev (Some tx) (Some (rx'[i := tx ! i])) len (i + 1) b1 =
          Some (SPI_OK, Some (take i rx' @ drop i tx @ drop len rx'), b')" by simp
  then show ?case
    using il t by (subst spi_transfer_bytes_loop.simps) (auto simp: Let_def)
qed

text \<open>
  Claim C1, as amended. On the bench, with the controller initialized, the loopback bit
  set in Control, and hardware that is not Busy when each byte is requested, ends each
  busy-wait and shows no Error after it, \<open>spi_transfer_bytes\<close> on a byte sequence of any
  length returns \<open>SPI_OK\<close> and the receive buffer holds the transmitted sequence (followed
  by what it held beyond that length). With the loopback bit clear the same call can
  return \<open>SPI_OK\<close> with a different sequence: the bench then answers with its RxData
  register.
\<close>
theorem loopback_round_trip:
  assumes "initialized b" and "reg_control (hw b) AND CTRL_LOOPBACK \<noteq> 0"
    and "paced (length tx) (status_stream (hw b))" and "length tx \<le> length rx"
  shows "(\<exists>b'. spi_transfer_bytes bench_dev (Some tx) (Some rx) (length tx) b =
                 Some (SPI_OK, Some (tx @ drop (length tx) rx), b'))
       \<and> (\<exists>b'. initialized ready \<and> reg_control (hw ready) AND CTRL_LOOPBACK = 0
                 \<and> paced 1 (status_stream (hw ready))
                 \<and> spi_transfer_bytes bench_dev (Some [0x41]) (Some [0x00]) 1 ready =
                     Some (SPI_OK, Some [0x00], b'))"
proof
  from bench_loopback_loop [OF refl assms(4) assms(1,2), of 0 rx] assms(3)
  show "\<exists>b'. spi_transfer_bytes bench_dev (Some tx) (Some rx) (length tx) b =
                 Some (SPI_OK, Some (tx @ drop (length tx) rx), b')"
    using assms(1) by (simp add: spi_transfer_bytes_def)
next
  have "initialized ready \<and> reg_control (hw ready) AND CTRL_LOOPBACK = 0
      \<and> paced 1 (status_stream (hw ready))"
    by (simp add: ready_eq bench0_def status_stream_def CTRL_LOOPBACK_def STAT_BUSY_def
        STAT_ERROR_def)
  moreover have "\<exists>b'. spi_transfer_bytes bench_dev (Some [0x41]) (Some [0x00]) 1 ready =
                     Some (SPI_OK, Some [0x00], b')"
    by (simp add: run_defs)
  ultimately show "\<exists>b'. initialized ready \<and> reg_control (hw ready) AND CTRL_LOOPBACK = 0
                 \<and> paced 1 (status_stream (hw ready))
                 \<and> spi_transfer_bytes bench_dev (Some [0x41]) (Some [0x00]) 1 ready =
                     Some (SPI_OK, Some [0x00], b')" by blast
qed

theorem loopback_round_trip_witness:
  "initialized (loopback_hw [0, 1, 1, 2, 2, 0, 1, 2, 2, 0, 2, 2])
   \<and> reg_control (hw (loopback_hw [0, 1, 1, 2, 2, 0, 1, 2, 2, 0, 2, 2])) AND CTRL_LOOPBACK \<noteq> 0
   \<and> paced 3 (status_stream (hw (loopback_hw [0, 1, 1, 2, 2, 0, 1, 2, 2, 0, 2, 2])))
   \<and> (\<exists>b'. spi_transfer_bytes bench_dev (Some [0x53, 0x50, 0x49]) (Some [0, 0, 0]) 3
              (loopback_hw [0, 1, 1, 2, 2, 0, 1, 2, 2, 0, 2, 2]) =
              Some (SPI_OK, Some [0x53, 0x50, 0x49], b'))"
proof -
  let ?b = "loopback_hw [0, 1, 1, 2, 2, 0, 1, 2, 2, 0, 2, 2]"
  have h: "initialized ?b" "reg_control (hw ?b) AND CTRL_LOOPBACK \<noteq> 0"
    by (simp_all add: loopback_hw_def loopback_on_eq bench0_def CTRL_LOOPBACK_def)
  have p: "paced 3 (status_stream (hw ?b))"
    by (simp add: loopback_hw_def loopback_on_eq bench0_def status_stream_def numeral_3_eq_3
        STAT_BUSY_def STAT_ERROR_def)
  have len3: "length [0x53, 0x50, 0x49 :: u8] = 3" by simp
  have p': "paced (length [0x53, 0x50, 0x49 :: u8]) (status_stream (hw ?b))"
    unfolding len3 by (rule p)
  have l: "length [0x53, 0x50, 0x49 :: u8] \<le> length [0, 0, 0 :: u8]" by simp
  from h p loopback_round_trip [OF h p' l] show ?thesis by (simp add: numeral_3_eq_3)
qed

text \<open>
  Claim C1, as stated, fails: with loopback enabled on an initialized controller whose
  Status shows Busy, \<open>spi_transfer_bytes\<close> on a one-byte sequence returns
  \<open>SPI_ERROR_BUSY\<close> and leaves the receive buffer as it was.
\<close>
theorem loopback_busy_counterexample:
  "initialized loopback_busy \<and> reg_control (hw loopback_busy) AND CTRL_LOOPBACK \<noteq> 0
   \<and> length [0x41 :: u8] \<le> 32
   \<and> spi_transfer_bytes bench_dev (Some [0x41]) (Some [0x00]) 1 loopback_busy =
       Some (SPI_ERROR_BUSY, Some [0x00], loopback_busy)"
  by (simp add: loopback_busy_def loopback_on_eq run_defs)

end
